theory Spec2Isabelle
  imports
    Main
    "HOL-Library.Word"
    "HOL-Library.Multiset"
    "HOL-Library.Char_ord"
    "HOL-Library.List_Lexorder"
begin

section \<open>StaticJSON: the container, pointer and map handlers of stl_types.hpp\<close>

text \<open>
  The handlers of \<^verbatim>\<open>staticjson/stl_types.hpp\<close> adapt standard containers to a stream of
  SAX events. Every handler is bound by pointer to a value it does not own; the model passes
  the handler's own fields and the bound value side by side, and every method returns both.

  A result of \<open>None\<close> stands for undefined behaviour of the C++ program: signed overflow of a
  depth counter, or a call through a handler (or pointer) whose target is gone.
\<close>

subsection \<open>Events, errors, sinks and schema values\<close>

text \<open>
  One constructor per method of the event interface. Integers carry their bit pattern
  (\<open>int\<close> and \<open>unsigned\<close> are 32 bits wide, \<open>SizeType\<close> is \<open>unsigned\<close>); a \<open>double\<close> is carried
  as its 64 bits, since no handler of this file computes with it. \<open>String\<close> and \<open>Key\<close> take
  \<open>(str, length, copy)\<close>: the bytes \<open>str[0..length)\<close> are the string of the model.
\<close>

datatype event =
    EvNull
  | EvBool bool
  | EvInt "32 word"
  | EvUint "32 word"
  | EvInt64 "64 word"
  | EvUint64 "64 word"
  | EvDouble "64 word"
  | EvString string bool
  | EvKey string bool
  | EvStartObject
  | EvEndObject "32 word"
  | EvStartArray
  | EvEndArray "32 word"

datatype error =
    TypeMismatchError string string
  | ArrayElementError nat
  | ObjectMemberError string

text \<open>
  Modelled from the spec: the error stack \<open>ErrorStack\<close>, whose code is not among the
  sources: an ordered sequence of error records, kept here in the order in which the
  records were pushed.
\<close>

type_synonym ErrorStack = "error list"

definition push :: "error \<Rightarrow> ErrorStack \<Rightarrow> ErrorStack" where
  "push e stk = stk @ [e]"

text \<open>
  The output of \<open>write\<close> is any event consumer. Its answer to a call depends on the calls it
  accepted before, so a sink is that dependence together with the calls accepted so far.
\<close>

record sink =
  accepts :: "event list \<Rightarrow> event \<Rightarrow> bool"
  accepted :: "event list"

definition emit :: "event \<Rightarrow> sink \<Rightarrow> bool \<times> sink" where
  "emit ev out =
     (if accepts out (accepted out) ev
      then (True, out\<lparr>accepted := accepted out @ [ev]\<rparr>)
      else (False, out))"

datatype json =
    JNull
  | JBool bool
  | JString string
  | JArray "json list"
  | JObject "(string \<times> json) list"

definition AddMember :: "string \<Rightarrow> json \<Rightarrow> json \<Rightarrow> json" where
  "AddMember name v obj = (case obj of JObject ms \<Rightarrow> JObject (ms @ [(name, v)]) | _ \<Rightarrow> obj)"

definition PushBack :: "json \<Rightarrow> json \<Rightarrow> json" where
  "PushBack v arr = (case arr of JArray xs \<Rightarrow> JArray (xs @ [v]) | _ \<Rightarrow> arr)"

subsection \<open>The handler interface\<close>

text \<open>
  \<open>Handler<T>\<close> for an element type \<open>T\<close>: \<open>'s\<close> is the handler object, \<open>'v\<close> the value of type
  \<open>T\<close> it is bound to. The template parameter of a container handler is a value of this
  record. \<open>construct\<close> is the handler just after \<open>Handler<T>(&v)\<close>, \<open>default_value\<close> is \<open>T()\<close>.
  \<open>generate_schema_gone\<close> is \<open>generate_schema\<close> called on a handler whose bound value no longer
  exists (the pointer that owned it was emptied): a handler that does not touch its bound
  value while it describes itself answers all the same.
\<close>

record ('s, 'v) Handler =
  type_name :: "'s \<Rightarrow> string"
  on_event :: "event \<Rightarrow> 's \<times> 'v \<Rightarrow> (bool \<times> 's \<times> 'v) option"
  is_parsed :: "'s \<Rightarrow> bool"
  has_error :: "'s \<Rightarrow> bool"
  reap_error :: "'s \<Rightarrow> ErrorStack \<Rightarrow> bool \<times> 's \<times> ErrorStack"
  prepare_for_reuse :: "'s \<times> 'v \<Rightarrow> 's \<times> 'v"
  write_to :: "'s \<Rightarrow> 'v \<Rightarrow> sink \<Rightarrow> bool \<times> 's \<times> sink"
  generate_schema :: "'s \<times> 'v \<Rightarrow> (json \<times> 's \<times> 'v) option"
  generate_schema_gone :: "'s \<Rightarrow> (json \<times> 's) option"
  construct :: "'s"
  default_value :: "'v"

text \<open>
  The fields every handler inherits from \<open>BaseHandler\<close>.
\<close>

record BaseHandler =
  the_error :: "error option"
  parsed :: bool

definition INT_MAX :: int where
  "INT_MAX = 2147483647"

definition INT_MIN :: int where
  "INT_MIN = - 2147483648"

text \<open>
  Modelled from the spec: \<open>BaseHandler::prepare_for_reuse\<close>, declared in
  \<^verbatim>\<open>staticjson/basic.hpp\<close>, which is not among the sources. It resets the internal state
  without destructing the handler: the recorded error and the parsed flag are cleared, then
  the handler's own virtual \<open>reset()\<close> runs (the argument \<open>reset\<close>).
\<close>

definition base_prepare_for_reuse ::
  "('z BaseHandler_scheme \<times> 'v \<Rightarrow> 'z BaseHandler_scheme \<times> 'v)
     \<Rightarrow> 'z BaseHandler_scheme \<times> 'v \<Rightarrow> 'z BaseHandler_scheme \<times> 'v" where
  "base_prepare_for_reuse reset sv = reset ((fst sv)\<lparr>the_error := None, parsed := False\<rparr>, snd sv)"

text \<open>
  Modelled from the spec: \<open>BaseHandler::set_type_mismatch\<close>, declared in
  \<^verbatim>\<open>staticjson/basic.hpp\<close>, which is not among the sources. It records
  \<open>TypeMismatch(expected, actual)\<close> and fails; \<open>expected\<close> is the handler's \<open>type_name()\<close>, as
  \<open>ArrayHandler::precheck\<close> writes it out.
\<close>

definition set_type_mismatch ::
  "string \<Rightarrow> string \<Rightarrow> 'z BaseHandler_scheme \<Rightarrow> bool \<times> 'z BaseHandler_scheme" where
  "set_type_mismatch expected actual s =
     (False, s\<lparr>the_error := Some (TypeMismatchError expected actual)\<rparr>)"

subsection \<open>ArrayHandler\<close>

record ('h, 'v) ArrayHandler = BaseHandler +
  element :: 'v
  internal :: 'h
  depth :: int

datatype ArrayType = Vector | Deque | List

fun ArrayHandler_type_name :: "ArrayType \<Rightarrow> string \<Rightarrow> string" where
  "ArrayHandler_type_name Vector inner = ''std::vector<'' @ inner @ ''>''"
| "ArrayHandler_type_name Deque inner = ''std::deque<'' @ inner @ ''>''"
| "ArrayHandler_type_name List inner = ''std::list<'' @ inner @ ''>''"

definition ArrayHandler_name ::
  "ArrayType \<Rightarrow> ('h, 'v) Handler \<Rightarrow> ('h, 'v) ArrayHandler \<Rightarrow> string" where
  "ArrayHandler_name k H s = ArrayHandler_type_name k (type_name H (internal s))"

definition set_element_error ::
  "('h, 'v) ArrayHandler \<Rightarrow> 'v list \<Rightarrow> ('h, 'v) ArrayHandler" where
  "set_element_error s m_value = s\<lparr>the_error := Some (ArrayElementError (length m_value))\<rparr>"

definition ArrayHandler_precheck ::
  "ArrayType \<Rightarrow> ('h, 'v) Handler \<Rightarrow> string \<Rightarrow> ('h, 'v) ArrayHandler
     \<Rightarrow> bool \<times> ('h, 'v) ArrayHandler" where
  "ArrayHandler_precheck k H ty s =
     (if depth s \<le> 0
      then (False, s\<lparr>the_error := Some (TypeMismatchError (ArrayHandler_name k H s) ty)\<rparr>)
      else (True, s))"

definition ArrayHandler_postcheck ::
  "('h, 'v) Handler \<Rightarrow> bool \<Rightarrow> ('h, 'v) ArrayHandler \<times> 'v list
     \<Rightarrow> bool \<times> ('h, 'v) ArrayHandler \<times> 'v list" where
  "ArrayHandler_postcheck H success sv =
     (let s = fst sv; m_value = snd sv in
      if \<not> success then (False, set_element_error s m_value, m_value)
      else if is_parsed H (internal s)
      then (let m_value' = m_value @ [element s];
                he = prepare_for_reuse H (internal s, default_value H)
            in (True, s\<lparr>element := snd he, internal := fst he\<rparr>, m_value'))
      else (True, s, m_value))"

definition ArrayHandler_reset ::
  "('h, 'v) Handler \<Rightarrow> ('h, 'v) ArrayHandler \<times> 'v list \<Rightarrow> ('h, 'v) ArrayHandler \<times> 'v list" where
  "ArrayHandler_reset H sv =
     (let s = fst sv;
          he = prepare_for_reuse H (internal s, default_value H)
      in (s\<lparr>element := snd he, internal := fst he, depth := 0\<rparr>, snd sv))"

definition ArrayHandler_prepare_for_reuse ::
  "('h, 'v) Handler \<Rightarrow> ('h, 'v) ArrayHandler \<times> 'v list \<Rightarrow> ('h, 'v) ArrayHandler \<times> 'v list" where
  "ArrayHandler_prepare_for_reuse H = base_prepare_for_reuse (ArrayHandler_reset H)"

text \<open>The call \<open>postcheck(internal.E(...))\<close> for an event \<open>E\<close>.\<close>

definition ArrayHandler_forward ::
  "('h, 'v) Handler \<Rightarrow> event \<Rightarrow> ('h, 'v) ArrayHandler \<times> 'v list
     \<Rightarrow> (bool \<times> ('h, 'v) ArrayHandler \<times> 'v list) option" where
  "ArrayHandler_forward H ev sv =
     (let s = fst sv in
      case on_event H ev (internal s, element s) of
        None \<Rightarrow> None
      | Some (ok, h', e') \<Rightarrow>
          Some (ArrayHandler_postcheck H ok (s\<lparr>element := e', internal := h'\<rparr>, snd sv)))"

text \<open>The string each method passes to \<open>precheck\<close> (or to \<open>set_type_mismatch\<close>).\<close>

fun precheck_type :: "event \<Rightarrow> string" where
  "precheck_type EvNull = ''null''"
| "precheck_type (EvBool b) = ''bool''"
| "precheck_type (EvInt i) = ''int''"
| "precheck_type (EvUint i) = ''unsigned''"
| "precheck_type (EvInt64 i) = ''int64_t''"
| "precheck_type (EvUint64 i) = ''uint64_t''"
| "precheck_type (EvDouble d) = ''double''"
| "precheck_type (EvString str copy) = ''string''"
| "precheck_type (EvKey str copy) = ''object''"
| "precheck_type EvStartObject = ''object''"
| "precheck_type (EvEndObject n) = ''object''"
| "precheck_type EvStartArray = ''array''"
| "precheck_type (EvEndArray n) = ''array''"

text \<open>\<open>precheck(type) && postcheck(internal.E(...))\<close>: the body of eleven methods.\<close>

definition ArrayHandler_checked ::
  "ArrayType \<Rightarrow> ('h, 'v) Handler \<Rightarrow> event \<Rightarrow> ('h, 'v) ArrayHandler \<times> 'v list
     \<Rightarrow> (bool \<times> ('h, 'v) ArrayHandler \<times> 'v list) option" where
  "ArrayHandler_checked k H ev sv =
     (case ArrayHandler_precheck k H (precheck_type ev) (fst sv) of
        (False, s') \<Rightarrow> Some (False, s', snd sv)
      | (True, s') \<Rightarrow> ArrayHandler_forward H ev (s', snd sv))"

definition ArrayHandler_StartArray ::
  "('h, 'v) Handler \<Rightarrow> ('h, 'v) ArrayHandler \<times> 'v list
     \<Rightarrow> (bool \<times> ('h, 'v) ArrayHandler \<times> 'v list) option" where
  "ArrayHandler_StartArray H sv =
     (let s = fst sv in
      if depth s = INT_MAX then None
      else (let s1 = s\<lparr>depth := depth s + 1\<rparr> in
            if depth s1 > 1 then ArrayHandler_forward H EvStartArray (s1, snd sv)
            else Some (True, s1, snd sv)))"

definition ArrayHandler_EndArray ::
  "('h, 'v) Handler \<Rightarrow> 32 word \<Rightarrow> ('h, 'v) ArrayHandler \<times> 'v list
     \<Rightarrow> (bool \<times> ('h, 'v) ArrayHandler \<times> 'v list) option" where
  "ArrayHandler_EndArray H len sv =
     (let s = fst sv in
      if depth s = INT_MIN then None
      else (let s1 = s\<lparr>depth := depth s - 1\<rparr> in
            if depth s1 > 0 then ArrayHandler_forward H (EvEndArray len) (s1, snd sv)
            else Some (True, s1\<lparr>parsed := True\<rparr>, snd sv)))"

fun ArrayHandler_on_event ::
  "ArrayType \<Rightarrow> ('h, 'v) Handler \<Rightarrow> event \<Rightarrow> ('h, 'v) ArrayHandler \<times> 'v list
     \<Rightarrow> (bool \<times> ('h, 'v) ArrayHandler \<times> 'v list) option" where
  "ArrayHandler_on_event k H EvStartArray sv = ArrayHandler_StartArray H sv"
| "ArrayHandler_on_event k H (EvEndArray len) sv = ArrayHandler_EndArray H len sv"
| "ArrayHandler_on_event k H ev sv = ArrayHandler_checked k H ev sv"

definition ArrayHandler_reap_error ::
  "('h, 'v) Handler \<Rightarrow> ('h, 'v) ArrayHandler \<Rightarrow> ErrorStack
     \<Rightarrow> bool \<times> ('h, 'v) ArrayHandler \<times> ErrorStack" where
  "ArrayHandler_reap_error H s stk =
     (case the_error s of
        None \<Rightarrow> (False, s, stk)
      | Some e \<Rightarrow>
          (let r = reap_error H (internal s) (push e stk)
           in (True, s\<lparr>the_error := None, internal := fst (snd r)\<rparr>, snd (snd r))))"

text \<open>The loop of \<open>write\<close>: a fresh \<open>Handler<ElementType> h(&e)\<close> writes each element.\<close>

fun write_elements :: "('h, 'v) Handler \<Rightarrow> 'v list \<Rightarrow> sink \<Rightarrow> bool \<times> sink" where
  "write_elements H [] out = (True, out)"
| "write_elements H (e # es) out =
     (case write_to H (construct H) e out of
        (False, h, out') \<Rightarrow> (False, out')
      | (True, h, out') \<Rightarrow> write_elements H es out')"

definition ArrayHandler_write ::
  "('h, 'v) Handler \<Rightarrow> ('h, 'v) ArrayHandler \<Rightarrow> 'v list \<Rightarrow> sink
     \<Rightarrow> bool \<times> ('h, 'v) ArrayHandler \<times> sink" where
  "ArrayHandler_write H s m_value out =
     (case emit EvStartArray out of
        (False, out1) \<Rightarrow> (False, s, out1)
      | (True, out1) \<Rightarrow>
          (case write_elements H m_value out1 of
             (False, out2) \<Rightarrow> (False, s, out2)
           | (True, out2) \<Rightarrow>
               (case emit (EvEndArray (of_nat (length m_value))) out2 of
                  (ok, out3) \<Rightarrow> (ok, s, out3))))"

text \<open>\<open>generate_schema\<close> never looks at \<open>*m_value\<close>: it asks the element handler.\<close>

definition ArrayHandler_generate_schema_gone ::
  "('h, 'v) Handler \<Rightarrow> ('h, 'v) ArrayHandler \<Rightarrow> (json \<times> ('h, 'v) ArrayHandler) option" where
  "ArrayHandler_generate_schema_gone H s =
     (case generate_schema H (internal s, element s) of
        None \<Rightarrow> None
      | Some (items, h', e') \<Rightarrow>
          Some (AddMember ''items'' items (AddMember ''type'' (JString ''array'') (JObject [])),
                s\<lparr>element := e', internal := h'\<rparr>))"

definition ArrayHandler_generate_schema ::
  "('h, 'v) Handler \<Rightarrow> ('h, 'v) ArrayHandler \<times> 'v list
     \<Rightarrow> (json \<times> ('h, 'v) ArrayHandler \<times> 'v list) option" where
  "ArrayHandler_generate_schema H sv =
     (case ArrayHandler_generate_schema_gone H (fst sv) of
        None \<Rightarrow> None
      | Some (output, s') \<Rightarrow> Some (output, s', snd sv))"

text \<open>
  \<open>Handler<std::vector<T>>\<close>, \<open>Handler<std::deque<T>>\<close> and \<open>Handler<std::list<T>>\<close>: the
  constructor leaves \<open>element()\<close>, \<open>internal(&element)\<close>, \<open>depth = 0\<close>, no error, not parsed.
\<close>

definition ArrayHandler_construct :: "('h, 'v) Handler \<Rightarrow> ('h, 'v) ArrayHandler" where
  "ArrayHandler_construct H =
     \<lparr>the_error = None, parsed = False,
      element = default_value H, internal = construct H, depth = 0\<rparr>"

definition ArrayHandler :: "ArrayType \<Rightarrow> ('h, 'v) Handler \<Rightarrow> (('h, 'v) ArrayHandler, 'v list) Handler" where
  "ArrayHandler k H =
     \<lparr>type_name = ArrayHandler_name k H,
      on_event = ArrayHandler_on_event k H,
      is_parsed = parsed,
      has_error = (\<lambda>s. the_error s \<noteq> None),
      reap_error = ArrayHandler_reap_error H,
      prepare_for_reuse = ArrayHandler_prepare_for_reuse H,
      write_to = ArrayHandler_write H,
      generate_schema = ArrayHandler_generate_schema H,
      generate_schema_gone = ArrayHandler_generate_schema_gone H,
      construct = ArrayHandler_construct H,
      default_value = []\<rparr>"

subsection \<open>PointerHandler\<close>

text \<open>
  The bound value \<open>*m_value\<close> is an owning pointer: \<open>None\<close> when it is empty, \<open>Some v\<close> when it
  holds a \<open>T\<close> of value \<open>v\<close>. \<open>internal_handler\<close> is bound to the object the pointer held when
  the handler was made; once the pointer is emptied that object is gone, and a call through
  \<open>internal_handler\<close> is undefined.
\<close>

record 'h PointerHandler = BaseHandler +
  p_internal_handler :: "'h option"
  p_depth :: int

datatype PointerType = UniquePtr | SharedPtr

fun PointerHandler_type_name :: "PointerType \<Rightarrow> string option \<Rightarrow> string" where
  "PointerHandler_type_name UniquePtr (Some inner) = ''std::unique_ptr<'' @ inner @ ''>''"
| "PointerHandler_type_name UniquePtr None = ''std::unique_ptr''"
| "PointerHandler_type_name SharedPtr (Some inner) = ''std::shared_ptr<'' @ inner @ ''>''"
| "PointerHandler_type_name SharedPtr None = ''std::shared_ptr''"

definition PointerHandler_name ::
  "PointerType \<Rightarrow> ('h, 'v) Handler \<Rightarrow> 'h PointerHandler \<Rightarrow> string" where
  "PointerHandler_name k H s =
     PointerHandler_type_name k (map_option (type_name H) (p_internal_handler s))"

definition initialize ::
  "('h, 'v) Handler \<Rightarrow> 'h PointerHandler \<times> 'v option \<Rightarrow> 'h PointerHandler \<times> 'v option" where
  "initialize H sv =
     (if p_internal_handler (fst sv) = None
      then ((fst sv)\<lparr>p_internal_handler := Some (construct H)\<rparr>, Some (default_value H))
      else sv)"

definition PointerHandler_reset ::
  "'h PointerHandler \<times> 'v option \<Rightarrow> 'h PointerHandler \<times> 'v option" where
  "PointerHandler_reset sv = ((fst sv)\<lparr>p_depth := 0, p_internal_handler := None\<rparr>, None)"

definition PointerHandler_prepare_for_reuse ::
  "'h PointerHandler \<times> 'v option \<Rightarrow> 'h PointerHandler \<times> 'v option" where
  "PointerHandler_prepare_for_reuse = base_prepare_for_reuse PointerHandler_reset"

definition PointerHandler_postcheck ::
  "('h, 'v) Handler \<Rightarrow> bool \<Rightarrow> 'h PointerHandler \<Rightarrow> 'h PointerHandler option" where
  "PointerHandler_postcheck H success s =
     (if success
      then (case p_internal_handler s of
              None \<Rightarrow> None
            | Some h \<Rightarrow> Some (s\<lparr>parsed := is_parsed H h\<rparr>))
      else Some s)"

text \<open>The call \<open>internal_handler->E(...)\<close> for an event \<open>E\<close>.\<close>

definition PointerHandler_call ::
  "('h, 'v) Handler \<Rightarrow> event \<Rightarrow> 'h PointerHandler \<times> 'v option
     \<Rightarrow> (bool \<times> 'h PointerHandler \<times> 'v option) option" where
  "PointerHandler_call H ev sv =
     (case p_internal_handler (fst sv) of
        None \<Rightarrow> None
      | Some h \<Rightarrow>
          (case snd sv of
             None \<Rightarrow> None
           | Some v \<Rightarrow>
               (case on_event H ev (h, v) of
                  None \<Rightarrow> None
                | Some (ok, h', v') \<Rightarrow>
                    Some (ok, (fst sv)\<lparr>p_internal_handler := Some h'\<rparr>, Some v'))))"

text \<open>The call \<open>postcheck(internal_handler->E(...))\<close>.\<close>

definition PointerHandler_forward ::
  "('h, 'v) Handler \<Rightarrow> event \<Rightarrow> 'h PointerHandler \<times> 'v option
     \<Rightarrow> (bool \<times> 'h PointerHandler \<times> 'v option) option" where
  "PointerHandler_forward H ev sv =
     (case PointerHandler_call H ev sv of
        None \<Rightarrow> None
      | Some (ok, s', slot') \<Rightarrow>
          (case PointerHandler_postcheck H ok s' of
             None \<Rightarrow> None
           | Some s'' \<Rightarrow> Some (ok, s'', slot')))"

definition PointerHandler_Null ::
  "('h, 'v) Handler \<Rightarrow> 'h PointerHandler \<times> 'v option
     \<Rightarrow> (bool \<times> 'h PointerHandler \<times> 'v option) option" where
  "PointerHandler_Null H sv =
     (if p_depth (fst sv) = 0
      then Some (True, (fst sv)\<lparr>parsed := True\<rparr>, None)
      else PointerHandler_forward H EvNull (initialize H sv))"

text \<open>\<open>initialize(); ++depth;\<close> and \<open>initialize(); --depth;\<close>\<close>

definition PointerHandler_enter ::
  "('h, 'v) Handler \<Rightarrow> 'h PointerHandler \<times> 'v option
     \<Rightarrow> ('h PointerHandler \<times> 'v option) option" where
  "PointerHandler_enter H sv =
     (let sv1 = initialize H sv in
      if p_depth (fst sv1) = INT_MAX then None
      else Some ((fst sv1)\<lparr>p_depth := p_depth (fst sv1) + 1\<rparr>, snd sv1))"

definition PointerHandler_leave ::
  "('h, 'v) Handler \<Rightarrow> 'h PointerHandler \<times> 'v option
     \<Rightarrow> ('h PointerHandler \<times> 'v option) option" where
  "PointerHandler_leave H sv =
     (let sv1 = initialize H sv in
      if p_depth (fst sv1) = INT_MIN then None
      else Some ((fst sv1)\<lparr>p_depth := p_depth (fst sv1) - 1\<rparr>, snd sv1))"

fun PointerHandler_on_event ::
  "('h, 'v) Handler \<Rightarrow> event \<Rightarrow> 'h PointerHandler \<times> 'v option
     \<Rightarrow> (bool \<times> 'h PointerHandler \<times> 'v option) option" where
  "PointerHandler_on_event H EvNull sv = PointerHandler_Null H sv"
| "PointerHandler_on_event H EvStartObject sv =
     (case PointerHandler_enter H sv of
        None \<Rightarrow> None
      | Some sv1 \<Rightarrow> PointerHandler_call H EvStartObject sv1)"
| "PointerHandler_on_event H (EvEndObject len) sv =
     (case PointerHandler_leave H sv of
        None \<Rightarrow> None
      | Some sv1 \<Rightarrow> PointerHandler_forward H (EvEndObject len) sv1)"
| "PointerHandler_on_event H EvStartArray sv =
     (case PointerHandler_enter H sv of
        None \<Rightarrow> None
      | Some sv1 \<Rightarrow> PointerHandler_forward H EvStartArray sv1)"
| "PointerHandler_on_event H (EvEndArray len) sv =
     (case PointerHandler_leave H sv of
        None \<Rightarrow> None
      | Some sv1 \<Rightarrow> PointerHandler_forward H (EvEndArray len) sv1)"
| "PointerHandler_on_event H ev sv = PointerHandler_forward H ev (initialize H sv)"

definition PointerHandler_has_error :: "('h, 'v) Handler \<Rightarrow> 'h PointerHandler \<Rightarrow> bool" where
  "PointerHandler_has_error H s =
     (case p_internal_handler s of None \<Rightarrow> False | Some h \<Rightarrow> has_error H h)"

definition PointerHandler_reap_error ::
  "('h, 'v) Handler \<Rightarrow> 'h PointerHandler \<Rightarrow> ErrorStack
     \<Rightarrow> bool \<times> 'h PointerHandler \<times> ErrorStack" where
  "PointerHandler_reap_error H s stk =
     (case p_internal_handler s of
        None \<Rightarrow> (False, s, stk)
      | Some h \<Rightarrow>
          (let r = reap_error H h stk
           in (fst r, s\<lparr>p_internal_handler := Some (fst (snd r))\<rparr>, snd (snd r))))"

definition PointerHandler_write ::
  "('h, 'v) Handler \<Rightarrow> 'h PointerHandler \<Rightarrow> 'v option \<Rightarrow> sink
     \<Rightarrow> bool \<times> 'h PointerHandler \<times> sink" where
  "PointerHandler_write H s slot out =
     (case slot of
        None \<Rightarrow> (case emit EvNull out of (ok, out') \<Rightarrow> (ok, s, out'))
      | Some v \<Rightarrow>
          (let h = (case p_internal_handler s of None \<Rightarrow> construct H | Some h \<Rightarrow> h)
           in case write_to H h v out of
                (ok, h', out') \<Rightarrow> (ok, s\<lparr>p_internal_handler := Some h'\<rparr>, out')))"

definition nullDescriptor :: json where
  "nullDescriptor = AddMember ''type'' (JString ''null'') (JObject [])"

text \<open>
  \<open>generate_schema\<close> runs \<open>initialize()\<close> and then asks the inner handler. When the inner
  handler exists but the pointer was emptied since, \<open>initialize()\<close> does nothing and the inner
  handler is asked although its value is gone. When the bound pointer itself is gone,
  \<open>initialize()\<close> writes through it unless the inner handler exists.
\<close>

definition anyOf_schema :: "json \<Rightarrow> json" where
  "anyOf_schema descriptor =
     AddMember ''anyOf'' (PushBack descriptor (PushBack nullDescriptor (JArray []))) (JObject [])"

definition PointerHandler_generate_schema ::
  "('h, 'v) Handler \<Rightarrow> 'h PointerHandler \<times> 'v option
     \<Rightarrow> (json \<times> 'h PointerHandler \<times> 'v option) option" where
  "PointerHandler_generate_schema H sv =
     (let sv1 = initialize H sv in
      case p_internal_handler (fst sv1) of
        None \<Rightarrow> None
      | Some h \<Rightarrow>
          (case snd sv1 of
             None \<Rightarrow>
               (case generate_schema_gone H h of
                  None \<Rightarrow> None
                | Some (descriptor, h') \<Rightarrow>
                    Some (anyOf_schema descriptor,
                          (fst sv1)\<lparr>p_internal_handler := Some h'\<rparr>, None))
           | Some v \<Rightarrow>
               (case generate_schema H (h, v) of
                  None \<Rightarrow> None
                | Some (descriptor, h', v') \<Rightarrow>
                    Some (anyOf_schema descriptor,
                          (fst sv1)\<lparr>p_internal_handler := Some h'\<rparr>, Some v'))))"

definition PointerHandler_generate_schema_gone ::
  "('h, 'v) Handler \<Rightarrow> 'h PointerHandler \<Rightarrow> (json \<times> 'h PointerHandler) option" where
  "PointerHandler_generate_schema_gone H s =
     (case p_internal_handler s of
        None \<Rightarrow> None
      | Some h \<Rightarrow>
          (case generate_schema_gone H h of
             None \<Rightarrow> None
           | Some (descriptor, h') \<Rightarrow>
               Some (anyOf_schema descriptor, s\<lparr>p_internal_handler := Some h'\<rparr>)))"

definition PointerHandler_construct :: "'h PointerHandler" where
  "PointerHandler_construct =
     \<lparr>the_error = None, parsed = False, p_internal_handler = None, p_depth = 0\<rparr>"

definition PointerHandler ::
  "PointerType \<Rightarrow> ('h, 'v) Handler \<Rightarrow> ('h PointerHandler, 'v option) Handler" where
  "PointerHandler k H =
     \<lparr>type_name = PointerHandler_name k H,
      on_event = PointerHandler_on_event H,
      is_parsed = parsed,
      has_error = PointerHandler_has_error H,
      reap_error = PointerHandler_reap_error H,
      prepare_for_reuse = PointerHandler_prepare_for_reuse,
      write_to = PointerHandler_write H,
      generate_schema = PointerHandler_generate_schema H,
      generate_schema_gone = PointerHandler_generate_schema_gone H,
      construct = PointerHandler_construct,
      default_value = None\<rparr>"

subsection \<open>MapHandler\<close>

text \<open>
  The bound container is the list of its entries in iteration order. \<open>emplace\<close> is the
  container's own: \<open>std::map\<close> keeps its keys sorted and unique and leaves an entry whose key
  is taken where it is; \<open>std::multimap\<close> keeps every entry, a new one after the entries of
  the same key. The comparison is \<open>std::less<std::string>\<close>, bytewise lexicographic.

  The iteration order of the unordered containers is unspecified. Their kind carries the
  placement of the implementation at hand: \<open>place k v m\<close> is the iteration order after the
  entry \<open>(k, v)\<close> was added to a container that iterated as \<open>m\<close>. \<open>std::unordered_map\<close> adds
  an entry only when its key is new.
\<close>

datatype 'v MapType =
    UnorderedMap "string \<Rightarrow> 'v \<Rightarrow> (string \<times> 'v) list \<Rightarrow> (string \<times> 'v) list"
  | Map
  | UnorderedMultimap "string \<Rightarrow> 'v \<Rightarrow> (string \<times> 'v) list \<Rightarrow> (string \<times> 'v) list"
  | Multimap

fun map_emplace :: "string \<Rightarrow> 'v \<Rightarrow> (string \<times> 'v) list \<Rightarrow> (string \<times> 'v) list" where
  "map_emplace k v [] = [(k, v)]"
| "map_emplace k v (p # ps) =
     (if k < fst p then (k, v) # p # ps
      else if k = fst p then p # ps
      else p # map_emplace k v ps)"

fun multimap_emplace :: "string \<Rightarrow> 'v \<Rightarrow> (string \<times> 'v) list \<Rightarrow> (string \<times> 'v) list" where
  "multimap_emplace k v [] = [(k, v)]"
| "multimap_emplace k v (p # ps) =
     (if k < fst p then (k, v) # p # ps
      else p # multimap_emplace k v ps)"

fun emplace :: "'v MapType \<Rightarrow> string \<Rightarrow> 'v \<Rightarrow> (string \<times> 'v) list \<Rightarrow> (string \<times> 'v) list" where
  "emplace (UnorderedMap place) k v m = (if k \<in> fst ` set m then m else place k v m)"
| "emplace Map k v m = map_emplace k v m"
| "emplace (UnorderedMultimap place) k v m = place k v m"
| "emplace Multimap k v m = multimap_emplace k v m"

text \<open>
  What every implementation guarantees of a placement: the entries afterwards are the
  entries before and the new one. \<open>keeps_entries\<close> says so of a kind of map; the ordered kinds
  satisfy it by their definition. \<open>multi\<close> tells the kinds that keep equal keys.
\<close>

definition arranges :: "(string \<Rightarrow> 'v \<Rightarrow> (string \<times> 'v) list \<Rightarrow> (string \<times> 'v) list) \<Rightarrow> bool" where
  "arranges place \<longleftrightarrow> (\<forall>k v m. mset (place k v m) = add_mset (k, v) (mset m))"

fun keeps_entries :: "'v MapType \<Rightarrow> bool" where
  "keeps_entries (UnorderedMap place) = arranges place"
| "keeps_entries Map = True"
| "keeps_entries (UnorderedMultimap place) = arranges place"
| "keeps_entries Multimap = True"

fun multi :: "'v MapType \<Rightarrow> bool" where
  "multi (UnorderedMap place) = False"
| "multi Map = False"
| "multi (UnorderedMultimap place) = True"
| "multi Multimap = True"

record ('h, 'v) MapHandler = BaseHandler +
  m_element :: 'v
  m_internal_handler :: 'h
  current_key :: string
  m_depth :: int

fun MapHandler_type_name :: "'v MapType \<Rightarrow> string \<Rightarrow> string" where
  "MapHandler_type_name (UnorderedMap place) inner =
     ''std::unordered_map<std::string, '' @ inner @ ''>''"
| "MapHandler_type_name Map inner = ''std::map<std::string, '' @ inner @ ''>''"
| "MapHandler_type_name (UnorderedMultimap place) inner =
     ''std::unordered_mulitimap<std::string, '' @ inner @ ''>''"
| "MapHandler_type_name Multimap inner = ''std::multimap<std::string, '' @ inner @ ''>''"

definition MapHandler_name ::
  "'v MapType \<Rightarrow> ('h, 'v) Handler \<Rightarrow> ('h, 'v) MapHandler \<Rightarrow> string" where
  "MapHandler_name k H s = MapHandler_type_name k (type_name H (m_internal_handler s))"

definition MapHandler_reset ::
  "('h, 'v) Handler \<Rightarrow> ('h, 'v) MapHandler \<times> (string \<times> 'v) list
     \<Rightarrow> ('h, 'v) MapHandler \<times> (string \<times> 'v) list" where
  "MapHandler_reset H sv =
     (let s = fst sv;
          he = prepare_for_reuse H (m_internal_handler s, default_value H)
      in (s\<lparr>m_element := snd he, m_internal_handler := fst he, current_key := [], m_depth := 0\<rparr>,
          snd sv))"

definition MapHandler_prepare_for_reuse ::
  "('h, 'v) Handler \<Rightarrow> ('h, 'v) MapHandler \<times> (string \<times> 'v) list
     \<Rightarrow> ('h, 'v) MapHandler \<times> (string \<times> 'v) list" where
  "MapHandler_prepare_for_reuse H = base_prepare_for_reuse (MapHandler_reset H)"

definition MapHandler_precheck ::
  "'v MapType \<Rightarrow> ('h, 'v) Handler \<Rightarrow> string \<Rightarrow> ('h, 'v) MapHandler
     \<Rightarrow> bool \<times> ('h, 'v) MapHandler" where
  "MapHandler_precheck k H ty s =
     (if m_depth s \<le> 0 then set_type_mismatch (MapHandler_name k H s) ty s else (True, s))"

text \<open>
  In \<open>postcheck\<close> the key is moved into the new entry: \<open>std::move(current_key)\<close> leaves the
  string empty.
\<close>

definition MapHandler_postcheck ::
  "'v MapType \<Rightarrow> ('h, 'v) Handler \<Rightarrow> bool \<Rightarrow> ('h, 'v) MapHandler \<times> (string \<times> 'v) list
     \<Rightarrow> bool \<times> ('h, 'v) MapHandler \<times> (string \<times> 'v) list" where
  "MapHandler_postcheck k H success sv =
     (let s = fst sv; m_value = snd sv in
      if \<not> success
      then (success, s\<lparr>the_error := Some (ObjectMemberError (current_key s))\<rparr>, m_value)
      else if is_parsed H (m_internal_handler s)
      then (let m_value' = emplace k (current_key s) (m_element s) m_value;
                he = prepare_for_reuse H (m_internal_handler s, default_value H)
            in (success,
                s\<lparr>m_element := snd he, m_internal_handler := fst he, current_key := []\<rparr>,
                m_value'))
      else (success, s, m_value))"

definition MapHandler_forward ::
  "'v MapType \<Rightarrow> ('h, 'v) Handler \<Rightarrow> event \<Rightarrow> ('h, 'v) MapHandler \<times> (string \<times> 'v) list
     \<Rightarrow> (bool \<times> ('h, 'v) MapHandler \<times> (string \<times> 'v) list) option" where
  "MapHandler_forward k H ev sv =
     (let s = fst sv in
      case on_event H ev (m_internal_handler s, m_element s) of
        None \<Rightarrow> None
      | Some (ok, h', e') \<Rightarrow>
          Some (MapHandler_postcheck k H ok
                  (s\<lparr>m_element := e', m_internal_handler := h'\<rparr>, snd sv)))"

definition MapHandler_checked ::
  "'v MapType \<Rightarrow> ('h, 'v) Handler \<Rightarrow> event \<Rightarrow> ('h, 'v) MapHandler \<times> (string \<times> 'v) list
     \<Rightarrow> (bool \<times> ('h, 'v) MapHandler \<times> (string \<times> 'v) list) option" where
  "MapHandler_checked k H ev sv =
     (case MapHandler_precheck k H (precheck_type ev) (fst sv) of
        (False, s') \<Rightarrow> Some (False, s', snd sv)
      | (True, s') \<Rightarrow> MapHandler_forward k H ev (s', snd sv))"

definition MapHandler_Key ::
  "'v MapType \<Rightarrow> ('h, 'v) Handler \<Rightarrow> string \<Rightarrow> bool \<Rightarrow> ('h, 'v) MapHandler \<times> (string \<times> 'v) list
     \<Rightarrow> (bool \<times> ('h, 'v) MapHandler \<times> (string \<times> 'v) list) option" where
  "MapHandler_Key k H str copy sv =
     (if m_depth (fst sv) > 1 then MapHandler_forward k H (EvKey str copy) sv
      else Some (True, (fst sv)\<lparr>current_key := str\<rparr>, snd sv))"

definition MapHandler_StartObject ::
  "'v MapType \<Rightarrow> ('h, 'v) Handler \<Rightarrow> ('h, 'v) MapHandler \<times> (string \<times> 'v) list
     \<Rightarrow> (bool \<times> ('h, 'v) MapHandler \<times> (string \<times> 'v) list) option" where
  "MapHandler_StartObject k H sv =
     (let s = fst sv in
      if m_depth s = INT_MAX then None
      else (let s1 = s\<lparr>m_depth := m_depth s + 1\<rparr> in
            if m_depth s1 > 1 then MapHandler_forward k H EvStartObject (s1, snd sv)
            else Some (True, s1, snd sv)))"

definition MapHandler_EndObject ::
  "'v MapType \<Rightarrow> ('h, 'v) Handler \<Rightarrow> 32 word \<Rightarrow> ('h, 'v) MapHandler \<times> (string \<times> 'v) list
     \<Rightarrow> (bool \<times> ('h, 'v) MapHandler \<times> (string \<times> 'v) list) option" where
  "MapHandler_EndObject k H len sv =
     (let s = fst sv in
      if m_depth s = INT_MIN then None
      else (let s1 = s\<lparr>m_depth := m_depth s - 1\<rparr> in
            if m_depth s1 > 0 then MapHandler_forward k H (EvEndObject len) (s1, snd sv)
            else Some (True, s1\<lparr>parsed := True\<rparr>, snd sv)))"

fun MapHandler_on_event ::
  "'v MapType \<Rightarrow> ('h, 'v) Handler \<Rightarrow> event \<Rightarrow> ('h, 'v) MapHandler \<times> (string \<times> 'v) list
     \<Rightarrow> (bool \<times> ('h, 'v) MapHandler \<times> (string \<times> 'v) list) option" where
  "MapHandler_on_event k H (EvKey str copy) sv = MapHandler_Key k H str copy sv"
| "MapHandler_on_event k H EvStartObject sv = MapHandler_StartObject k H sv"
| "MapHandler_on_event k H (EvEndObject len) sv = MapHandler_EndObject k H len sv"
| "MapHandler_on_event k H ev sv = MapHandler_checked k H ev sv"

definition MapHandler_reap_error ::
  "('h, 'v) Handler \<Rightarrow> ('h, 'v) MapHandler \<Rightarrow> ErrorStack
     \<Rightarrow> bool \<times> ('h, 'v) MapHandler \<times> ErrorStack" where
  "MapHandler_reap_error H s errs =
     (case the_error s of
        None \<Rightarrow> (False, s, errs)
      | Some e \<Rightarrow>
          (let r = reap_error H (m_internal_handler s) (push e errs)
           in (True, s\<lparr>the_error := None, m_internal_handler := fst (snd r)\<rparr>, snd (snd r))))"

fun write_entries :: "('h, 'v) Handler \<Rightarrow> (string \<times> 'v) list \<Rightarrow> sink \<Rightarrow> bool \<times> sink" where
  "write_entries H [] out = (True, out)"
| "write_entries H (pair # ps) out =
     (case emit (EvKey (fst pair) True) out of
        (False, out1) \<Rightarrow> (False, out1)
      | (True, out1) \<Rightarrow>
          (case write_to H (construct H) (snd pair) out1 of
             (False, h, out2) \<Rightarrow> (False, out2)
           | (True, h, out2) \<Rightarrow> write_entries H ps out2))"

definition MapHandler_write ::
  "('h, 'v) Handler \<Rightarrow> ('h, 'v) MapHandler \<Rightarrow> (string \<times> 'v) list \<Rightarrow> sink
     \<Rightarrow> bool \<times> ('h, 'v) MapHandler \<times> sink" where
  "MapHandler_write H s m_value out =
     (case emit EvStartObject out of
        (False, out1) \<Rightarrow> (False, s, out1)
      | (True, out1) \<Rightarrow>
          (case write_entries H m_value out1 of
             (False, out2) \<Rightarrow> (False, s, out2)
           | (True, out2) \<Rightarrow>
               (case emit (EvEndObject (of_nat (length m_value))) out2 of
                  (ok, out3) \<Rightarrow> (ok, s, out3))))"

definition MapHandler_generate_schema_gone ::
  "('h, 'v) Handler \<Rightarrow> ('h, 'v) MapHandler \<Rightarrow> (json \<times> ('h, 'v) MapHandler) option" where
  "MapHandler_generate_schema_gone H s =
     (case generate_schema H (m_internal_handler s, m_element s) of
        None \<Rightarrow> None
      | Some (internal_schema, h', e') \<Rightarrow>
          Some (AddMember ''additionalProperties'' internal_schema
                  (AddMember ''properties'' (JObject [])
                     (AddMember ''type'' (JString ''object'') (JObject []))),
                s\<lparr>m_element := e', m_internal_handler := h'\<rparr>))"

definition MapHandler_generate_schema ::
  "('h, 'v) Handler \<Rightarrow> ('h, 'v) MapHandler \<times> (string \<times> 'v) list
     \<Rightarrow> (json \<times> ('h, 'v) MapHandler \<times> (string \<times> 'v) list) option" where
  "MapHandler_generate_schema H sv =
     (case MapHandler_generate_schema_gone H (fst sv) of
        None \<Rightarrow> None
      | Some (output, s') \<Rightarrow> Some (output, s', snd sv))"

definition MapHandler_construct :: "('h, 'v) Handler \<Rightarrow> ('h, 'v) MapHandler" where
  "MapHandler_construct H =
     \<lparr>the_error = None, parsed = False,
      m_element = default_value H, m_internal_handler = construct H,
      current_key = [], m_depth = 0\<rparr>"

definition MapHandler ::
  "'v MapType \<Rightarrow> ('h, 'v) Handler \<Rightarrow> (('h, 'v) MapHandler, (string \<times> 'v) list) Handler" where
  "MapHandler k H =
     \<lparr>type_name = MapHandler_name k H,
      on_event = MapHandler_on_event k H,
      is_parsed = parsed,
      has_error = (\<lambda>s. the_error s \<noteq> None),
      reap_error = MapHandler_reap_error H,
      prepare_for_reuse = MapHandler_prepare_for_reuse H,
      write_to = MapHandler_write H,
      generate_schema = MapHandler_generate_schema H,
      generate_schema_gone = MapHandler_generate_schema_gone H,
      construct = MapHandler_construct H,
      default_value = []\<rparr>"

subsection \<open>A scalar leaf and the event source\<close>

text \<open>
  Modelled from the spec: the scalar handler for \<open>int\<close>, an external collaborator whose code
  is not among the sources. It implements the whole
  event interface for its primitive: an \<open>Int\<close> event stores the number and completes the
  value; any other event is a \<open>TypeMismatch\<close> of expected type \<open>int\<close> and the kind of the event.
  It drains its own error, has nothing of its own to reset, writes its number as one event
  and describes itself by a leaf descriptor.
\<close>

definition IntHandler_on_event ::
  "event \<Rightarrow> BaseHandler \<times> 32 word \<Rightarrow> (bool \<times> BaseHandler \<times> 32 word) option" where
  "IntHandler_on_event ev sv =
     (case ev of
        EvInt i \<Rightarrow> Some (True, (fst sv)\<lparr>parsed := True\<rparr>, i)
      | _ \<Rightarrow> (case set_type_mismatch ''int'' (precheck_type ev) (fst sv) of
                (ok, s') \<Rightarrow> Some (ok, s', snd sv)))"

text \<open>
  Modelled from the spec: \<open>BaseHandler::reap_error\<close>, which the leaf inherits: it moves the
  handler's own error, if there is one, onto the stack and says whether there was one.
\<close>

definition BaseHandler_reap_error ::
  "BaseHandler \<Rightarrow> ErrorStack \<Rightarrow> bool \<times> BaseHandler \<times> ErrorStack" where
  "BaseHandler_reap_error s errs =
     (case the_error s of
        None \<Rightarrow> (False, s, errs)
      | Some e \<Rightarrow> (True, s\<lparr>the_error := None\<rparr>, push e errs))"

definition IntHandler :: "(BaseHandler, 32 word) Handler" where
  "IntHandler =
     \<lparr>type_name = (\<lambda>s. ''int''),
      on_event = IntHandler_on_event,
      is_parsed = parsed,
      has_error = (\<lambda>s. the_error s \<noteq> None),
      reap_error = BaseHandler_reap_error,
      prepare_for_reuse = base_prepare_for_reuse (\<lambda>sv. sv),
      write_to = (\<lambda>s v out. case emit (EvInt v) out of (ok, out') \<Rightarrow> (ok, s, out')),
      generate_schema =
        (\<lambda>sv. Some (AddMember ''type'' (JString ''integer'') (JObject []), sv)),
      generate_schema_gone =
        (\<lambda>s. Some (AddMember ''type'' (JString ''integer'') (JObject []), s)),
      construct = \<lparr>the_error = None, parsed = False\<rparr>,
      default_value = 0\<rparr>"

text \<open>
  Modelled from the spec: the event source, an external collaborator. It delivers the
  events of one document in order, aborts at the first failure and ends the pass when the
  handler reports parsed.
\<close>

fun decode :: "('s, 'v) Handler \<Rightarrow> event list \<Rightarrow> 's \<times> 'v \<Rightarrow> (bool \<times> 's \<times> 'v) option" where
  "decode H [] sv = Some (True, sv)"
| "decode H (ev # evs) sv =
     (case on_event H ev sv of
        None \<Rightarrow> None
      | Some (False, sv') \<Rightarrow> Some (False, sv')
      | Some (True, sv') \<Rightarrow>
          (if is_parsed H (fst sv') then Some (True, sv') else decode H evs sv'))"

subsection \<open>Element documents\<close>

text \<open>
  What the statements below call a valid element document. \<open>element_document H evs hv\<close> runs
  the element handler \<open>H\<close> from \<open>hv\<close> through the events: every event succeeds, the handler
  reports parsed after the last one and not before; the result is the handler and the value
  it leaves. An element handler starts an element either as constructed or after
  \<open>prepare_for_reuse\<close> on a default value (\<open>fresh_states\<close>); \<open>decodes_to H evs v\<close> says that from
  each of these the events are a document of value \<open>v\<close>.
\<close>

fun element_document :: "('h, 'v) Handler \<Rightarrow> event list \<Rightarrow> 'h \<times> 'v \<Rightarrow> ('h \<times> 'v) option" where
  "element_document H [] hv = None"
| "element_document H (ev # evs) hv =
     (case on_event H ev hv of
        None \<Rightarrow> None
      | Some (False, hv') \<Rightarrow> None
      | Some (True, hv') \<Rightarrow>
          (if is_parsed H (fst hv') then (if evs = [] then Some hv' else None)
           else element_document H evs hv'))"

definition fresh_states :: "('h, 'v) Handler \<Rightarrow> ('h \<times> 'v) set" where
  "fresh_states H =
     insert (construct H, default_value H)
       (range (\<lambda>h. prepare_for_reuse H (h, default_value H)))"

definition decodes_to :: "('h, 'v) Handler \<Rightarrow> event list \<Rightarrow> 'v \<Rightarrow> bool" where
  "decodes_to H evs v \<longleftrightarrow>
     (\<forall>hv \<in> fresh_states H. \<exists>h'. element_document H evs hv = Some (h', v))"

text \<open>
  The nesting of a document as the array handler counts it: \<open>array_depth_step d ev\<close> is the
  depth after an event that arrives at depth \<open>d\<close> and is forwarded to the element handler,
  \<open>None\<close> when the event is not forwarded (it belongs to the handler's own array, or comes
  before it) or the counter would overflow. The events of an element are balanced when they
  lead from depth 1 back to depth 1. \<open>object_depth_step\<close> is the same for the map handler,
  which forwards a key only inside a nested object.
\<close>

fun array_depth_step :: "int \<Rightarrow> event \<Rightarrow> int option" where
  "array_depth_step d EvStartArray = (if 0 < d \<and> d < INT_MAX then Some (d + 1) else None)"
| "array_depth_step d (EvEndArray n) = (if 1 < d then Some (d - 1) else None)"
| "array_depth_step d ev = (if 0 < d then Some d else None)"

fun array_depth_after :: "int \<Rightarrow> event list \<Rightarrow> int option" where
  "array_depth_after d [] = Some d"
| "array_depth_after d (ev # evs) =
     (case array_depth_step d ev of
        None \<Rightarrow> None
      | Some d' \<Rightarrow> array_depth_after d' evs)"

fun object_depth_step :: "int \<Rightarrow> event \<Rightarrow> int option" where
  "object_depth_step d EvStartObject = (if 0 < d \<and> d < INT_MAX then Some (d + 1) else None)"
| "object_depth_step d (EvEndObject n) = (if 1 < d then Some (d - 1) else None)"
| "object_depth_step d (EvKey str copy) = (if 1 < d then Some d else None)"
| "object_depth_step d ev = (if 0 < d then Some d else None)"

fun object_depth_after :: "int \<Rightarrow> event list \<Rightarrow> int option" where
  "object_depth_after d [] = Some d"
| "object_depth_after d (ev # evs) =
     (case object_depth_step d ev of
        None \<Rightarrow> None
      | Some d' \<Rightarrow> object_depth_after d' evs)"

text \<open>The events of the members of an object, and the container they build.\<close>

fun entry_events :: "bool \<Rightarrow> (string \<times> event list \<times> 'v) list \<Rightarrow> event list" where
  "entry_events copy [] = []"
| "entry_events copy (m # ms) = EvKey (fst m) copy # fst (snd m) @ entry_events copy ms"

fun emplace_all ::
  "'v MapType \<Rightarrow> (string \<times> event list \<times> 'v) list \<Rightarrow> (string \<times> 'v) list \<Rightarrow> (string \<times> 'v) list" where
  "emplace_all k [] m_value = m_value"
| "emplace_all k (m # ms) m_value = emplace_all k ms (emplace k (fst m) (snd (snd m)) m_value)"

text \<open>
  A sink that accepts every call, and an element handler that writes a value as a given
  list of events into such a sink.
\<close>

definition accepting :: "sink \<Rightarrow> bool" where
  "accepting out \<longleftrightarrow> (\<forall>evs ev. accepts out evs ev)"

definition writes_as :: "('h, 'v) Handler \<Rightarrow> 'v \<Rightarrow> event list \<Rightarrow> bool" where
  "writes_as H v evs \<longleftrightarrow>
     (\<forall>out. accepting out \<longrightarrow>
        (\<exists>h. write_to H (construct H) v out = (True, h, out\<lparr>accepted := accepted out @ evs\<rparr>)))"

subsection \<open>The parsed flag of the nullable handler along a pass\<close>




section \<open>Properties\<close>

subsection \<open>Events outside the handler's own container\<close>

text \<open>
  C9. A sequential-container handler that has seen no begin-array (depth 0) does not fail
  on an end-array event: it returns success, sets the parsed flag and leaves the depth
  counter at -1, changing nothing else. A keyed-map handler at depth 0 treats an end-object
  event in the same way.
\<close>

theorem C9_end_event_at_depth_zero:
  "(depth s = 0 \<longrightarrow>
      on_event (ArrayHandler k H) (EvEndArray n) (s, m_value) =
        Some (True, s\<lparr>depth := - 1, parsed := True\<rparr>, m_value)) \<and>
   (m_depth t = 0 \<longrightarrow>
      on_event (MapHandler k' H') (EvEndObject n') (t, m_value') =
        Some (True, t\<lparr>m_depth := - 1, parsed := True\<rparr>, m_value'))"
  by (simp add: ArrayHandler_def ArrayHandler_EndArray_def MapHandler_def
      MapHandler_EndObject_def INT_MIN_def)

theorem C9_end_event_at_depth_zero_witness:
  "on_event (ArrayHandler Vector IntHandler) (EvEndArray 0)
      (construct (ArrayHandler Vector IntHandler), []) =
     Some (True, (construct (ArrayHandler Vector IntHandler))\<lparr>depth := - 1, parsed := True\<rparr>, []) \<and>
   on_event (MapHandler Map IntHandler) (EvEndObject 0)
      (construct (MapHandler Map IntHandler), []) =
     Some (True, (construct (MapHandler Map IntHandler))\<lparr>m_depth := - 1, parsed := True\<rparr>, [])"
  using C9_end_event_at_depth_zero
    [of "construct (ArrayHandler Vector IntHandler)" Vector IntHandler 0 "[]"
        "construct (MapHandler Map IntHandler)" Map IntHandler 0 "[]"]
  by (simp add: ArrayHandler_def ArrayHandler_construct_def MapHandler_def MapHandler_construct_def)

text \<open>
  C10. A key event that reaches a keyed-map handler whose depth is at most 1 (also 0 or
  less, before the map's own begin-object) always succeeds: the bytes become the pending
  key, replacing the one before, nothing is forwarded and no error is recorded. Only at a
  depth above 1 is the key event forwarded to the element handler.
\<close>

theorem C10_key_event:
  "(m_depth s \<le> 1 \<longrightarrow>
      on_event (MapHandler k H) (EvKey str copy) (s, m_value) =
        Some (True, s\<lparr>current_key := str\<rparr>, m_value)) \<and>
   (1 < m_depth s \<longrightarrow>
      on_event (MapHandler k H) (EvKey str copy) (s, m_value) =
        (case on_event H (EvKey str copy) (m_internal_handler s, m_element s) of
           None \<Rightarrow> None
         | Some (ok, h', e') \<Rightarrow>
             Some (MapHandler_postcheck k H ok
                     (s\<lparr>m_element := e', m_internal_handler := h'\<rparr>, m_value))))"
  by (simp add: MapHandler_def MapHandler_Key_def MapHandler_forward_def split: option.splits)

theorem C10_key_event_witness:
  "on_event (MapHandler Map IntHandler) (EvKey ''k'' False)
      ((construct (MapHandler Map IntHandler))\<lparr>current_key := ''old''\<rparr>, []) =
     Some (True, (construct (MapHandler Map IntHandler))\<lparr>current_key := ''k''\<rparr>, []) \<and>
   on_event (MapHandler Map IntHandler) (EvKey ''k'' False)
      ((construct (MapHandler Map IntHandler))\<lparr>m_depth := 2\<rparr>, []) =
     Some (False,
           (construct (MapHandler Map IntHandler))
             \<lparr>m_depth := 2, the_error := Some (ObjectMemberError []),
              m_internal_handler :=
                (construct IntHandler)\<lparr>the_error := Some (TypeMismatchError ''int'' ''object'')\<rparr>\<rparr>,
           [])"
  using
    C10_key_event
      [of "(construct (MapHandler Map IntHandler))\<lparr>current_key := ''old''\<rparr>"
          Map IntHandler "''k''" False "[]"]
    C10_key_event
      [of "(construct (MapHandler Map IntHandler))\<lparr>m_depth := 2\<rparr>"
          Map IntHandler "''k''" False "[]"]
  by (simp add: MapHandler_def MapHandler_construct_def MapHandler_postcheck_def
      IntHandler_def IntHandler_on_event_def set_type_mismatch_def)

subsection \<open>The nullable handler\<close>

lemma PointerHandler_call_proj:
  "p_internal_handler s = Some h \<Longrightarrow>
   map_option (\<lambda>(ok, s', slot'). (ok, p_internal_handler s', slot'))
     (PointerHandler_call H ev (s, Some v)) =
   map_option (\<lambda>(ok, h', v'). (ok, Some h', Some v')) (on_event H ev (h, v))"
  by (cases "on_event H ev (h, v)") (auto simp: PointerHandler_call_def)

lemma PointerHandler_forward_proj:
  "p_internal_handler s = Some h \<Longrightarrow>
   map_option (\<lambda>(ok, s', slot'). (ok, p_internal_handler s', slot'))
     (PointerHandler_forward H ev (s, Some v)) =
   map_option (\<lambda>(ok, h', v'). (ok, Some h', Some v')) (on_event H ev (h, v))"
  by (cases "on_event H ev (h, v)")
     (auto simp: PointerHandler_forward_def PointerHandler_call_def PointerHandler_postcheck_def)

lemma initialize_target:
  assumes "p_internal_handler s = None \<and> h = construct H \<and> v = default_value H
         \<or> p_internal_handler s = Some h \<and> slot = Some v"
  shows "\<exists>s1. initialize H (s, slot) = (s1, Some v) \<and> p_internal_handler s1 = Some h
           \<and> p_depth s1 = p_depth s"
  using assms by (auto simp: initialize_def)

lemma PointerHandler_forwards_nonnull:
  assumes "ev \<noteq> EvNull"
    and "ev = EvStartObject \<or> ev = EvStartArray \<longrightarrow> p_depth s < INT_MAX"
    and "\<forall>n. ev = EvEndObject n \<or> ev = EvEndArray n \<longrightarrow> INT_MIN < p_depth s"
    and "p_internal_handler s = None \<and> h = construct H \<and> v = default_value H
         \<or> p_internal_handler s = Some h \<and> slot = Some v"
  shows "map_option (\<lambda>(ok, s', slot'). (ok, p_internal_handler s', slot'))
           (on_event (PointerHandler k H) ev (s, slot)) =
         map_option (\<lambda>(ok, h', v'). (ok, Some h', Some v')) (on_event H ev (h, v))"
proof -
  obtain s1 where init: "initialize H (s, slot) = (s1, Some v)"
    and h: "p_internal_handler s1 = Some h" and d: "p_depth s1 = p_depth s"
    using initialize_target [OF assms(4)] by blast
  show ?thesis
    using assms(1-3) h d
    by (cases ev)
       (simp_all add: PointerHandler_def init PointerHandler_enter_def PointerHandler_leave_def
          PointerHandler_call_proj PointerHandler_forward_proj)
qed

lemma PointerHandler_call_internal:
  "PointerHandler_call H ev sv = Some (ok, s', slot') \<Longrightarrow> p_internal_handler s' \<noteq> None"
  by (auto simp: PointerHandler_call_def split: option.splits)

lemma PointerHandler_forward_internal:
  "PointerHandler_forward H ev sv = Some (ok, s', slot') \<Longrightarrow> p_internal_handler s' \<noteq> None"
  by (auto simp: PointerHandler_forward_def PointerHandler_postcheck_def
      dest!: PointerHandler_call_internal split: option.splits if_splits)

lemma PointerHandler_nonnull_internal:
  assumes "ev \<noteq> EvNull" and "on_event (PointerHandler k H) ev (s, slot) = Some (ok, s', slot')"
  shows "p_internal_handler s' \<noteq> None"
  using assms
  by (cases ev)
     (auto simp add: PointerHandler_def
        dest: PointerHandler_call_internal PointerHandler_forward_internal
        split: option.splits)

text \<open>
  C5. A null event at depth 0 empties the bound slot, sets the parsed flag and succeeds;
  the handler's other fields, among them the (absent) inner handler, stay as they were, so
  neither \<open>T\<close> nor its handler is constructed. A non-null event first runs \<open>initialize\<close>: when
  there is no inner handler yet, the slot receives a default-constructed \<open>T\<close> and the inner
  handler is constructed over it, otherwise nothing is constructed. The event then goes to
  the inner handler: success flag, inner handler and held value are those the inner
  handler returns. After a non-null event the inner handler exists, so \<open>initialize\<close>
  constructs nothing for the later events of the pass.
\<close>

theorem C5_nullable_null_and_lazy_construction:
  "(p_depth s = 0 \<longrightarrow>
      on_event (PointerHandler k H) EvNull (s, slot) = Some (True, s\<lparr>parsed := True\<rparr>, None)) \<and>
   (p_internal_handler s = None \<longrightarrow>
      initialize H (s, slot) =
        (s\<lparr>p_internal_handler := Some (construct H)\<rparr>, Some (default_value H))) \<and>
   (p_internal_handler s \<noteq> None \<longrightarrow> initialize H (s, slot) = (s, slot)) \<and>
   (ev \<noteq> EvNull \<and>
    (ev = EvStartObject \<or> ev = EvStartArray \<longrightarrow> p_depth s < INT_MAX) \<and>
    (\<forall>n. ev = EvEndObject n \<or> ev = EvEndArray n \<longrightarrow> INT_MIN < p_depth s) \<and>
    (p_internal_handler s = None \<and> h = construct H \<and> v = default_value H
       \<or> p_internal_handler s = Some h \<and> slot = Some v) \<longrightarrow>
      map_option (\<lambda>(ok, s', slot'). (ok, p_internal_handler s', slot'))
        (on_event (PointerHandler k H) ev (s, slot)) =
      map_option (\<lambda>(ok, h', v'). (ok, Some h', Some v')) (on_event H ev (h, v))) \<and>
   (ev \<noteq> EvNull \<and> on_event (PointerHandler k H) ev (s, slot) = Some (ok, s', slot') \<longrightarrow>
      p_internal_handler s' \<noteq> None \<and> initialize H (s', slot') = (s', slot'))"
proof (intro conjI impI)
  assume "p_depth s = 0"
  then show "on_event (PointerHandler k H) EvNull (s, slot) = Some (True, s\<lparr>parsed := True\<rparr>, None)"
    by (simp add: PointerHandler_def PointerHandler_Null_def)
next
  assume "p_internal_handler s = None"
  then show "initialize H (s, slot) =
      (s\<lparr>p_internal_handler := Some (construct H)\<rparr>, Some (default_value H))"
    by (simp add: initialize_def)
next
  assume "p_internal_handler s \<noteq> None"
  then show "initialize H (s, slot) = (s, slot)"
    by (cases "p_internal_handler s") (simp_all add: initialize_def)
next
  assume a: "ev \<noteq> EvNull \<and>
    (ev = EvStartObject \<or> ev = EvStartArray \<longrightarrow> p_depth s < INT_MAX) \<and>
    (\<forall>n. ev = EvEndObject n \<or> ev = EvEndArray n \<longrightarrow> INT_MIN < p_depth s) \<and>
    (p_internal_handler s = None \<and> h = construct H \<and> v = default_value H
       \<or> p_internal_handler s = Some h \<and> slot = Some v)"
  then show "map_option (\<lambda>(ok, s', slot'). (ok, p_internal_handler s', slot'))
        (on_event (PointerHandler k H) ev (s, slot)) =
      map_option (\<lambda>(ok, h', v'). (ok, Some h', Some v')) (on_event H ev (h, v))"
    using PointerHandler_forwards_nonnull [of ev s h H v slot k] by blast
next
  assume a: "ev \<noteq> EvNull \<and> on_event (PointerHandler k H) ev (s, slot) = Some (ok, s', slot')"
  then show "p_internal_handler s' \<noteq> None"
    using PointerHandler_nonnull_internal [of ev k H s slot ok s' slot'] by blast
  then show "initialize H (s', slot') = (s', slot')"
    by (cases "p_internal_handler s'") (simp_all add: initialize_def)
qed

theorem C5_nullable_null_and_lazy_construction_witness:
  "on_event (PointerHandler UniquePtr IntHandler) EvNull
      (construct (PointerHandler UniquePtr IntHandler), Some 7) =
     Some (True, (construct (PointerHandler UniquePtr IntHandler))\<lparr>parsed := True\<rparr>, None) \<and>
   initialize IntHandler (construct (PointerHandler UniquePtr IntHandler), None) =
     ((construct (PointerHandler UniquePtr IntHandler))
        \<lparr>p_internal_handler := Some (construct IntHandler)\<rparr>, Some 0) \<and>
   on_event (PointerHandler UniquePtr IntHandler) (EvInt 5)
      (construct (PointerHandler UniquePtr IntHandler), None) =
     Some (True,
           \<lparr>the_error = None, parsed = True,
            p_internal_handler = Some \<lparr>the_error = None, parsed = True\<rparr>, p_depth = 0\<rparr>,
           Some 5) \<and>
   initialize IntHandler
      (\<lparr>the_error = None, parsed = True,
        p_internal_handler = Some \<lparr>the_error = None, parsed = True\<rparr>, p_depth = 0\<rparr>, Some 5) =
     (\<lparr>the_error = None, parsed = True,
       p_internal_handler = Some \<lparr>the_error = None, parsed = True\<rparr>, p_depth = 0\<rparr>, Some 5)"
proof -
  let ?P = "PointerHandler UniquePtr IntHandler"
  let ?s' = "\<lparr>the_error = None, parsed = True,
              p_internal_handler = Some \<lparr>the_error = None, parsed = True\<rparr>, p_depth = 0\<rparr>"
  have run: "on_event ?P (EvInt 5) (construct ?P, None) = Some (True, ?s', Some 5)"
    by (simp add: PointerHandler_def PointerHandler_construct_def PointerHandler_forward_def
        PointerHandler_call_def PointerHandler_postcheck_def initialize_def
        IntHandler_def IntHandler_on_event_def)
  have c: "construct ?P = \<lparr>the_error = None, parsed = False, p_internal_handler = None, p_depth = 0\<rparr>"
    by (simp add: PointerHandler_def PointerHandler_construct_def)
  have ci: "construct IntHandler = \<lparr>the_error = None, parsed = False\<rparr>" "default_value IntHandler = 0"
    by (simp_all add: IntHandler_def)
  show ?thesis
    using
      C5_nullable_null_and_lazy_construction
        [of "construct ?P" UniquePtr IntHandler "Some 7" "EvInt 5" "construct IntHandler" 0
            True ?s' "Some 5"]
      C5_nullable_null_and_lazy_construction
        [of "construct ?P" UniquePtr IntHandler None "EvInt 5" "construct IntHandler" 0
            True ?s' "Some 5"]
      run
    by (simp add: c ci INT_MIN_def INT_MAX_def)
qed

subsection \<open>Forwarding, harvesting and error records of the container handlers\<close>

text \<open>
  Inside its own array (and, for end-array, inside a nested one) the array handler forwards
  the event and hands the answer to \<open>postcheck\<close>; begin-array and end-array move the depth
  first.
\<close>

lemma ArrayHandler_on_event_forwarded:
  assumes "0 < depth s" and "ev = EvStartArray \<longrightarrow> depth s < INT_MAX"
    and "\<forall>n. ev = EvEndArray n \<longrightarrow> 1 < depth s"
  shows "on_event (ArrayHandler k H) ev (s, m_value) =
     (case on_event H ev (internal s, element s) of
        None \<Rightarrow> None
      | Some (ok, h', e') \<Rightarrow>
          Some (ArrayHandler_postcheck H ok
                  (s\<lparr>depth := (if ev = EvStartArray then depth s + 1
                                else if (\<exists>n. ev = EvEndArray n) then depth s - 1
                                else depth s),
                     element := e', internal := h'\<rparr>, m_value)))"
  using assms
  by (cases ev)
     (simp_all add: ArrayHandler_def ArrayHandler_checked_def ArrayHandler_precheck_def
        ArrayHandler_StartArray_def ArrayHandler_EndArray_def ArrayHandler_forward_def
        INT_MIN_def INT_MAX_def split: option.splits)

lemma ArrayHandler_reap_error_pushes:
  "the_error s = Some e \<Longrightarrow>
   ArrayHandler_reap_error H s stk =
     (True, s\<lparr>the_error := None, internal := fst (snd (reap_error H (internal s) (stk @ [e])))\<rparr>,
      snd (snd (reap_error H (internal s) (stk @ [e]))))"
  by (simp add: ArrayHandler_reap_error_def push_def Let_def)

lemma MapHandler_on_event_forwarded:
  assumes "0 < m_depth s" and "ev = EvStartObject \<longrightarrow> m_depth s < INT_MAX"
    and "\<forall>n. ev = EvEndObject n \<longrightarrow> 1 < m_depth s"
    and "\<forall>str copy. ev = EvKey str copy \<longrightarrow> 1 < m_depth s"
  shows "on_event (MapHandler k H) ev (s, m_value) =
     (case on_event H ev (m_internal_handler s, m_element s) of
        None \<Rightarrow> None
      | Some (ok, h', e') \<Rightarrow>
          Some (MapHandler_postcheck k H ok
                  (s\<lparr>m_depth := (if ev = EvStartObject then m_depth s + 1
                                  else if (\<exists>n. ev = EvEndObject n) then m_depth s - 1
                                  else m_depth s),
                     m_element := e', m_internal_handler := h'\<rparr>, m_value)))"
  using assms
  by (cases ev)
     (simp_all add: MapHandler_def MapHandler_checked_def MapHandler_precheck_def
        MapHandler_StartObject_def MapHandler_EndObject_def MapHandler_forward_def
        MapHandler_Key_def INT_MIN_def INT_MAX_def split: option.splits)

lemma MapHandler_reap_error_pushes:
  "the_error s = Some e \<Longrightarrow>
   MapHandler_reap_error H s stk =
     (True, s\<lparr>the_error := None,
              m_internal_handler := fst (snd (reap_error H (m_internal_handler s) (stk @ [e])))\<rparr>,
      snd (snd (reap_error H (m_internal_handler s) (stk @ [e]))))"
  by (simp add: MapHandler_reap_error_def push_def Let_def)

text \<open>The equations that run the handlers on concrete events.\<close>

lemmas run_ArrayHandler =
  ArrayHandler_def ArrayHandler_construct_def ArrayHandler_StartArray_def
  ArrayHandler_EndArray_def ArrayHandler_checked_def ArrayHandler_precheck_def
  ArrayHandler_forward_def ArrayHandler_postcheck_def ArrayHandler_name_def
  ArrayHandler_reap_error_def ArrayHandler_prepare_for_reuse_def ArrayHandler_reset_def
  set_element_error_def base_prepare_for_reuse_def push_def INT_MAX_def INT_MIN_def

lemmas run_MapHandler =
  MapHandler_def MapHandler_construct_def MapHandler_StartObject_def
  MapHandler_EndObject_def MapHandler_Key_def MapHandler_checked_def MapHandler_precheck_def
  MapHandler_forward_def MapHandler_postcheck_def MapHandler_name_def
  MapHandler_reap_error_def MapHandler_prepare_for_reuse_def MapHandler_reset_def
  set_type_mismatch_def base_prepare_for_reuse_def push_def INT_MAX_def INT_MIN_def

lemmas run_IntHandler =
  IntHandler_def IntHandler_on_event_def BaseHandler_reap_error_def set_type_mismatch_def
  base_prepare_for_reuse_def push_def

text \<open>
  C2. When a forwarded event fails inside a sequential-container handler, the handler
  records \<open>ArrayElementError\<close> with the current size of the bound container, which stays as
  it is, and draining pushes that record and then whatever the element handler drains. A
  keyed-map handler records \<open>ObjectMemberError\<close> with the pending key in the same way.
  Decoding \<open>[1, 2, "bad"]\<close> into a vector of int fails with \<open>ArrayElementError 2\<close> followed by
  the leaf's type mismatch; decoding \<open>{"k": "bad"}\<close> into a map of int fails with
  \<open>ObjectMemberError k\<close> followed by the same type mismatch.
\<close>

theorem C2_error_locality:
  "(0 < depth s \<and> (ev = EvStartArray \<longrightarrow> depth s < INT_MAX) \<and>
    (\<forall>n. ev = EvEndArray n \<longrightarrow> 1 < depth s) \<and>
    on_event H ev (internal s, element s) = Some (False, h', e') \<longrightarrow>
      (\<exists>s'. on_event (ArrayHandler k H) ev (s, m_value) = Some (False, s', m_value) \<and>
            the_error s' = Some (ArrayElementError (length m_value)) \<and>
            internal s' = h' \<and>
            fst (reap_error (ArrayHandler k H) s' stk) \<and>
            snd (snd (reap_error (ArrayHandler k H) s' stk)) =
              snd (snd (reap_error H h' (stk @ [ArrayElementError (length m_value)]))))) \<and>
   (0 < m_depth t \<and> (ev = EvStartObject \<longrightarrow> m_depth t < INT_MAX) \<and>
    (\<forall>n. ev = EvEndObject n \<longrightarrow> 1 < m_depth t) \<and>
    (\<forall>str copy. ev = EvKey str copy \<longrightarrow> 1 < m_depth t) \<and>
    on_event G ev (m_internal_handler t, m_element t) = Some (False, g', x') \<longrightarrow>
      (\<exists>t'. on_event (MapHandler j G) ev (t, entries) = Some (False, t', entries) \<and>
            the_error t' = Some (ObjectMemberError (current_key t)) \<and>
            m_internal_handler t' = g' \<and>
            fst (reap_error (MapHandler j G) t' stk) \<and>
            snd (snd (reap_error (MapHandler j G) t' stk)) =
              snd (snd (reap_error G g' (stk @ [ObjectMemberError (current_key t)]))))) \<and>
   map_option (\<lambda>(ok, s', m_value'). (ok, m_value', snd (snd (reap_error (ArrayHandler Vector IntHandler) s' []))))
     (decode (ArrayHandler Vector IntHandler)
        [EvStartArray, EvInt 1, EvInt 2, EvString ''bad'' False]
        (construct (ArrayHandler Vector IntHandler), [])) =
     Some (False, [1, 2], [ArrayElementError 2, TypeMismatchError ''int'' ''string'']) \<and>
   map_option (\<lambda>(ok, t', entries'). (ok, entries', snd (snd (reap_error (MapHandler Map IntHandler) t' []))))
     (decode (MapHandler Map IntHandler)
        [EvStartObject, EvKey ''k'' False, EvString ''bad'' False]
        (construct (MapHandler Map IntHandler), [])) =
     Some (False, [], [ObjectMemberError ''k'', TypeMismatchError ''int'' ''string''])"
proof (intro conjI impI)
  assume a: "0 < depth s \<and> (ev = EvStartArray \<longrightarrow> depth s < INT_MAX) \<and>
    (\<forall>n. ev = EvEndArray n \<longrightarrow> 1 < depth s) \<and>
    on_event H ev (internal s, element s) = Some (False, h', e')"
  let ?s' = "set_element_error
      (s\<lparr>depth := (if ev = EvStartArray then depth s + 1
                    else if (\<exists>n. ev = EvEndArray n) then depth s - 1 else depth s),
         element := e', internal := h'\<rparr>) m_value"
  have step: "on_event (ArrayHandler k H) ev (s, m_value) = Some (False, ?s', m_value)"
    using a ArrayHandler_on_event_forwarded [of s ev k H m_value]
    by (simp add: ArrayHandler_postcheck_def)
  have err: "the_error ?s' = Some (ArrayElementError (length m_value))"
    by (simp add: set_element_error_def)
  have int: "internal ?s' = h'"
    by (simp add: set_element_error_def)
  have reap: "reap_error (ArrayHandler k H) ?s' stk = ArrayHandler_reap_error H ?s' stk"
    by (simp add: ArrayHandler_def)
  show "\<exists>s'. on_event (ArrayHandler k H) ev (s, m_value) = Some (False, s', m_value) \<and>
            the_error s' = Some (ArrayElementError (length m_value)) \<and>
            internal s' = h' \<and>
            fst (reap_error (ArrayHandler k H) s' stk) \<and>
            snd (snd (reap_error (ArrayHandler k H) s' stk)) =
              snd (snd (reap_error H h' (stk @ [ArrayElementError (length m_value)])))"
    using step err int
    by (intro exI [of _ ?s']) (simp add: reap ArrayHandler_reap_error_pushes [OF err])
next
  assume a: "0 < m_depth t \<and> (ev = EvStartObject \<longrightarrow> m_depth t < INT_MAX) \<and>
    (\<forall>n. ev = EvEndObject n \<longrightarrow> 1 < m_depth t) \<and>
    (\<forall>str copy. ev = EvKey str copy \<longrightarrow> 1 < m_depth t) \<and>
    on_event G ev (m_internal_handler t, m_element t) = Some (False, g', x')"
  let ?t' = "t\<lparr>m_depth := (if ev = EvStartObject then m_depth t + 1
                    else if (\<exists>n. ev = EvEndObject n) then m_depth t - 1 else m_depth t),
         m_element := x', m_internal_handler := g',
         the_error := Some (ObjectMemberError (current_key t))\<rparr>"
  have step: "on_event (MapHandler j G) ev (t, entries) = Some (False, ?t', entries)"
    using a MapHandler_on_event_forwarded [of t ev j G entries]
    by (simp add: MapHandler_postcheck_def)
  have err: "the_error ?t' = Some (ObjectMemberError (current_key t))"
    by simp
  have int: "m_internal_handler ?t' = g'"
    by simp
  have reap: "reap_error (MapHandler j G) ?t' stk = MapHandler_reap_error G ?t' stk"
    by (simp add: MapHandler_def)
  show "\<exists>t'. on_event (MapHandler j G) ev (t, entries) = Some (False, t', entries) \<and>
            the_error t' = Some (ObjectMemberError (current_key t)) \<and>
            m_internal_handler t' = g' \<and>
            fst (reap_error (MapHandler j G) t' stk) \<and>
            snd (snd (reap_error (MapHandler j G) t' stk)) =
              snd (snd (reap_error G g' (stk @ [ObjectMemberError (current_key t)])))"
    using step err int
    by (intro exI [of _ ?t']) (simp add: reap MapHandler_reap_error_pushes [OF err])
next
  show "map_option (\<lambda>(ok, s', m_value'). (ok, m_value', snd (snd (reap_error (ArrayHandler Vector IntHandler) s' []))))
     (decode (ArrayHandler Vector IntHandler)
        [EvStartArray, EvInt 1, EvInt 2, EvString ''bad'' False]
        (construct (ArrayHandler Vector IntHandler), [])) =
     Some (False, [1, 2], [ArrayElementError 2, TypeMismatchError ''int'' ''string''])"
    by (simp add: run_ArrayHandler run_IntHandler)
next
  show "map_option (\<lambda>(ok, t', entries'). (ok, entries', snd (snd (reap_error (MapHandler Map IntHandler) t' []))))
     (decode (MapHandler Map IntHandler)
        [EvStartObject, EvKey ''k'' False, EvString ''bad'' False]
        (construct (MapHandler Map IntHandler), [])) =
     Some (False, [], [ObjectMemberError ''k'', TypeMismatchError ''int'' ''string''])"
    by (simp add: run_MapHandler run_IntHandler)
qed

theorem C2_error_locality_witness:
  "(\<exists>s'. on_event (ArrayHandler Vector IntHandler) (EvString ''bad'' False)
            (\<lparr>the_error = None, parsed = False, element = 0,
              internal = \<lparr>the_error = None, parsed = False\<rparr>, depth = 1\<rparr>, [1, 2]) =
          Some (False, s', [1, 2]) \<and>
        the_error s' = Some (ArrayElementError 2) \<and>
        internal s' = \<lparr>the_error = Some (TypeMismatchError ''int'' ''string''), parsed = False\<rparr> \<and>
        fst (reap_error (ArrayHandler Vector IntHandler) s' []) \<and>
        snd (snd (reap_error (ArrayHandler Vector IntHandler) s' [])) =
          [ArrayElementError 2, TypeMismatchError ''int'' ''string'']) \<and>
   (\<exists>t'. on_event (MapHandler Map IntHandler) (EvString ''bad'' False)
            (\<lparr>the_error = None, parsed = False, m_element = 0,
              m_internal_handler = \<lparr>the_error = None, parsed = False\<rparr>,
              current_key = ''k'', m_depth = 1\<rparr>, []) =
          Some (False, t', []) \<and>
        the_error t' = Some (ObjectMemberError ''k'') \<and>
        m_internal_handler t' =
          \<lparr>the_error = Some (TypeMismatchError ''int'' ''string''), parsed = False\<rparr> \<and>
        fst (reap_error (MapHandler Map IntHandler) t' []) \<and>
        snd (snd (reap_error (MapHandler Map IntHandler) t' [])) =
          [ObjectMemberError ''k'', TypeMismatchError ''int'' ''string''])"
proof -
  let ?s = "\<lparr>the_error = None, parsed = False, element = 0 :: 32 word,
             internal = \<lparr>the_error = None, parsed = False\<rparr>, depth = 1\<rparr>"
  let ?t = "\<lparr>the_error = None, parsed = False, m_element = 0 :: 32 word,
             m_internal_handler = \<lparr>the_error = None, parsed = False\<rparr>,
             current_key = ''k'', m_depth = 1\<rparr>"
  let ?h = "\<lparr>the_error = Some (TypeMismatchError ''int'' ''string''), parsed = False\<rparr>"
  have leaf: "on_event IntHandler (EvString ''bad'' False) (\<lparr>the_error = None, parsed = False\<rparr>, 0) =
      Some (False, ?h, 0)"
    by (simp add: run_IntHandler)
  have drain: "reap_error IntHandler ?h stk = (True, ?h\<lparr>the_error := None\<rparr>, stk @ [TypeMismatchError ''int'' ''string''])"
    for stk
    by (simp add: run_IntHandler)
  show ?thesis
    using
      C2_error_locality
        [where s = ?s and ev = "EvString ''bad'' False" and H = IntHandler and h' = ?h
           and e' = 0 and k = Vector and m_value = "[1, 2]" and stk = "[]"
           and t = ?t and G = IntHandler and g' = ?h and x' = 0 and j = Map and entries = "[]"]
    by (simp add: leaf drain INT_MAX_def numeral_2_eq_2)
qed

subsection \<open>Reuse\<close>

text \<open>
  C1. \<open>prepare_for_reuse\<close> of a container handler clears the error, the parsed flag, the
  depth, the element buffer and (for maps) the pending key, and prepares the element
  handler; the bound container is not touched. So a second document decoded through the
  same handler is added to the elements of the first: after \<open>[1]\<close>, a reset and \<open>[2]\<close> the
  vector is \<open>[1, 2]\<close>, where a fresh handler on an empty vector gives \<open>[2]\<close>; after \<open>{"a": 1}\<close>,
  a reset and \<open>{"b": 2}\<close> the map has both entries, where a fresh handler gives only the
  second.
\<close>

theorem C1_reuse_keeps_first_document:
  "prepare_for_reuse (ArrayHandler k H) (s, m_value) =
     (s\<lparr>the_error := None, parsed := False,
        element := snd (prepare_for_reuse H (internal s, default_value H)),
        internal := fst (prepare_for_reuse H (internal s, default_value H)),
        depth := 0\<rparr>,
      m_value) \<and>
   prepare_for_reuse (MapHandler j G) (t, entries) =
     (t\<lparr>the_error := None, parsed := False,
        m_element := snd (prepare_for_reuse G (m_internal_handler t, default_value G)),
        m_internal_handler := fst (prepare_for_reuse G (m_internal_handler t, default_value G)),
        current_key := [], m_depth := 0\<rparr>,
      entries) \<and>
   map_option (\<lambda>(ok, s', m_value'). (ok, m_value'))
     (Option.bind
        (decode (ArrayHandler Vector IntHandler) [EvStartArray, EvInt 1, EvEndArray 1]
           (construct (ArrayHandler Vector IntHandler), []))
        (\<lambda>(ok, sv). decode (ArrayHandler Vector IntHandler) [EvStartArray, EvInt 2, EvEndArray 1]
           (prepare_for_reuse (ArrayHandler Vector IntHandler) sv))) =
     Some (True, [1, 2]) \<and>
   map_option (\<lambda>(ok, s', m_value'). (ok, m_value'))
     (decode (ArrayHandler Vector IntHandler) [EvStartArray, EvInt 2, EvEndArray 1]
        (construct (ArrayHandler Vector IntHandler), [])) =
     Some (True, [2]) \<and>
   map_option (\<lambda>(ok, t', entries'). (ok, entries'))
     (Option.bind
        (decode (MapHandler Map IntHandler)
           [EvStartObject, EvKey ''a'' False, EvInt 1, EvEndObject 1]
           (construct (MapHandler Map IntHandler), []))
        (\<lambda>(ok, sv). decode (MapHandler Map IntHandler)
           [EvStartObject, EvKey ''b'' False, EvInt 2, EvEndObject 1]
           (prepare_for_reuse (MapHandler Map IntHandler) sv))) =
     Some (True, [(''a'', 1), (''b'', 2)]) \<and>
   map_option (\<lambda>(ok, t', entries'). (ok, entries'))
     (decode (MapHandler Map IntHandler)
        [EvStartObject, EvKey ''b'' False, EvInt 2, EvEndObject 1]
        (construct (MapHandler Map IntHandler), [])) =
     Some (True, [(''b'', 2)])"
proof (intro conjI)
  show "prepare_for_reuse (ArrayHandler k H) (s, m_value) =
     (s\<lparr>the_error := None, parsed := False,
        element := snd (prepare_for_reuse H (internal s, default_value H)),
        internal := fst (prepare_for_reuse H (internal s, default_value H)),
        depth := 0\<rparr>,
      m_value)"
    by (simp add: ArrayHandler_def ArrayHandler_prepare_for_reuse_def ArrayHandler_reset_def
        base_prepare_for_reuse_def Let_def)
next
  show "prepare_for_reuse (MapHandler j G) (t, entries) =
     (t\<lparr>the_error := None, parsed := False,
        m_element := snd (prepare_for_reuse G (m_internal_handler t, default_value G)),
        m_internal_handler := fst (prepare_for_reuse G (m_internal_handler t, default_value G)),
        current_key := [], m_depth := 0\<rparr>,
      entries)"
    by (simp add: MapHandler_def MapHandler_prepare_for_reuse_def MapHandler_reset_def
        base_prepare_for_reuse_def Let_def)
next
  show "map_option (\<lambda>(ok, s', m_value'). (ok, m_value'))
     (Option.bind
        (decode (ArrayHandler Vector IntHandler) [EvStartArray, EvInt 1, EvEndArray 1]
           (construct (ArrayHandler Vector IntHandler), []))
        (\<lambda>(ok, sv). decode (ArrayHandler Vector IntHandler) [EvStartArray, EvInt 2, EvEndArray 1]
           (prepare_for_reuse (ArrayHandler Vector IntHandler) sv))) =
     Some (True, [1, 2])"
    by (simp add: run_ArrayHandler run_IntHandler)
next
  show "map_option (\<lambda>(ok, s', m_value'). (ok, m_value'))
     (decode (ArrayHandler Vector IntHandler) [EvStartArray, EvInt 2, EvEndArray 1]
        (construct (ArrayHandler Vector IntHandler), [])) =
     Some (True, [2])"
    by (simp add: run_ArrayHandler run_IntHandler)
next
  show "map_option (\<lambda>(ok, t', entries'). (ok, entries'))
     (Option.bind
        (decode (MapHandler Map IntHandler)
           [EvStartObject, EvKey ''a'' False, EvInt 1, EvEndObject 1]
           (construct (MapHandler Map IntHandler), []))
        (\<lambda>(ok, sv). decode (MapHandler Map IntHandler)
           [EvStartObject, EvKey ''b'' False, EvInt 2, EvEndObject 1]
           (prepare_for_reuse (MapHandler Map IntHandler) sv))) =
     Some (True, [(''a'', 1), (''b'', 2)])"
    by (simp add: run_MapHandler run_IntHandler)
next
  show "map_option (\<lambda>(ok, t', entries'). (ok, entries'))
     (decode (MapHandler Map IntHandler)
        [EvStartObject, EvKey ''b'' False, EvInt 2, EvEndObject 1]
        (construct (MapHandler Map IntHandler), [])) =
     Some (True, [(''b'', 2)])"
    by (simp add: run_MapHandler run_IntHandler)
qed

text \<open>
  C7. While the depth of a sequential-container handler is at most 0, every scalar, string,
  key, begin-object and end-object event fails at once. The only change is the recorded
  type mismatch: its expected type is the name of the container type (\<open>std::vector<\<close>,
  \<open>std::deque<\<close> or \<open>std::list<\<close>, the element handler's type name, \<open>>\<close>) and its actual type
  is the kind of the event (\<open>null\<close>, \<open>bool\<close>, \<open>int\<close>, \<open>unsigned\<close>, \<open>int64_t\<close>, \<open>uint64_t\<close>, \<open>double\<close>,
  \<open>string\<close>, and \<open>object\<close> for a key, begin-object and end-object). The element buffer, the
  element handler and the bound container are as before, so nothing was forwarded. In
  particular a null event at depth 0 fails.
\<close>

theorem C7_event_before_opening_array:
  assumes "depth s \<le> 0"
    and "expected =
           (case k of Vector \<Rightarrow> ''std::vector<'' | Deque \<Rightarrow> ''std::deque<'' | List \<Rightarrow> ''std::list<'')
           @ type_name H (internal s) @ ''>''"
  shows
    "on_event (ArrayHandler k H) EvNull (s, m_value) =
       Some (False, s\<lparr>the_error := Some (TypeMismatchError expected ''null'')\<rparr>, m_value) \<and>
     on_event (ArrayHandler k H) (EvBool b) (s, m_value) =
       Some (False, s\<lparr>the_error := Some (TypeMismatchError expected ''bool'')\<rparr>, m_value) \<and>
     on_event (ArrayHandler k H) (EvInt i) (s, m_value) =
       Some (False, s\<lparr>the_error := Some (TypeMismatchError expected ''int'')\<rparr>, m_value) \<and>
     on_event (ArrayHandler k H) (EvUint u) (s, m_value) =
       Some (False, s\<lparr>the_error := Some (TypeMismatchError expected ''unsigned'')\<rparr>, m_value) \<and>
     on_event (ArrayHandler k H) (EvInt64 i64) (s, m_value) =
       Some (False, s\<lparr>the_error := Some (TypeMismatchError expected ''int64_t'')\<rparr>, m_value) \<and>
     on_event (ArrayHandler k H) (EvUint64 u64) (s, m_value) =
       Some (False, s\<lparr>the_error := Some (TypeMismatchError expected ''uint64_t'')\<rparr>, m_value) \<and>
     on_event (ArrayHandler k H) (EvDouble d) (s, m_value) =
       Some (False, s\<lparr>the_error := Some (TypeMismatchError expected ''double'')\<rparr>, m_value) \<and>
     on_event (ArrayHandler k H) (EvString str copy) (s, m_value) =
       Some (False, s\<lparr>the_error := Some (TypeMismatchError expected ''string'')\<rparr>, m_value) \<and>
     on_event (ArrayHandler k H) (EvKey str copy) (s, m_value) =
       Some (False, s\<lparr>the_error := Some (TypeMismatchError expected ''object'')\<rparr>, m_value) \<and>
     on_event (ArrayHandler k H) EvStartObject (s, m_value) =
       Some (False, s\<lparr>the_error := Some (TypeMismatchError expected ''object'')\<rparr>, m_value) \<and>
     on_event (ArrayHandler k H) (EvEndObject n) (s, m_value) =
       Some (False, s\<lparr>the_error := Some (TypeMismatchError expected ''object'')\<rparr>, m_value)"
proof -
  have name: "ArrayHandler_name k H s = expected"
    using assms(2) by (cases k) (simp_all add: ArrayHandler_name_def)
  show ?thesis
    using assms(1)
    by (simp add: ArrayHandler_def ArrayHandler_checked_def ArrayHandler_precheck_def name)
qed

theorem C7_event_before_opening_array_witness:
  "on_event (ArrayHandler Vector IntHandler) EvNull
      (construct (ArrayHandler Vector IntHandler), []) =
     Some (False,
           (construct (ArrayHandler Vector IntHandler))
             \<lparr>the_error := Some (TypeMismatchError ''std::vector<int>'' ''null'')\<rparr>,
           []) \<and>
   on_event (ArrayHandler Deque IntHandler) (EvString ''x'' False)
      (construct (ArrayHandler Deque IntHandler), []) =
     Some (False,
           (construct (ArrayHandler Deque IntHandler))
             \<lparr>the_error := Some (TypeMismatchError ''std::deque<int>'' ''string'')\<rparr>,
           []) \<and>
   on_event (ArrayHandler List IntHandler) (EvKey ''x'' False)
      ((construct (ArrayHandler List IntHandler))\<lparr>depth := - 1\<rparr>, [7]) =
     Some (False,
           (construct (ArrayHandler List IntHandler))
             \<lparr>depth := - 1, the_error := Some (TypeMismatchError ''std::list<int>'' ''object'')\<rparr>,
           [7])"
proof -
  have c: "depth (construct (ArrayHandler k IntHandler)) = 0"
    "type_name IntHandler (internal (construct (ArrayHandler k IntHandler))) = ''int''" for k
    by (simp_all add: ArrayHandler_def ArrayHandler_construct_def IntHandler_def)
  have t: "type_name IntHandler
      (internal ((construct (ArrayHandler k IntHandler))\<lparr>depth := - 1\<rparr>)) = ''int''" for k
    by (simp add: IntHandler_def)
  show ?thesis
    using
      C7_event_before_opening_array
        [where s = "construct (ArrayHandler Vector IntHandler)" and k = Vector and H = IntHandler
           and expected = "''std::vector<int>''" and m_value = "[]"]
      C7_event_before_opening_array
        [where s = "construct (ArrayHandler Deque IntHandler)" and k = Deque and H = IntHandler
           and expected = "''std::deque<int>''" and m_value = "[]" and str = "''x''"
           and copy = False]
      C7_event_before_opening_array
        [where s = "(construct (ArrayHandler List IntHandler))\<lparr>depth := - 1\<rparr>" and k = List
           and H = IntHandler and expected = "''std::list<int>''" and m_value = "[7]"
           and str = "''x''" and copy = False]
    by (simp add: c t)
qed




text \<open>
  C6. Schema generation of the nullable handler produces the union of the null descriptor
  and the inner handler's descriptor, and needs no data from the caller. It does not work
  on a throwaway instance: it calls \<open>initialize\<close>. When there is no inner handler yet, a
  default-constructed \<open>T\<close> replaces whatever the bound slot held, the inner handler is
  constructed over it and generates its descriptor on it, and that \<open>T\<close>, as the inner
  handler's schema generation leaves it, stays in the slot: a slot that was empty before is
  not empty afterwards. When the inner handler exists already, nothing is constructed: a
  slot that holds a value is passed to the inner handler's schema generation, and an empty
  slot stays empty while the inner handler describes itself without its value.
\<close>

theorem C6_schema_generation_fills_the_slot:
  "(p_internal_handler s = None \<and>
    generate_schema H (construct H, default_value H) = Some (descriptor, h', v') \<longrightarrow>
      generate_schema (PointerHandler k H) (s, slot) =
        Some (JObject [(''anyOf'', JArray [JObject [(''type'', JString ''null'')], descriptor])],
              s\<lparr>p_internal_handler := Some h'\<rparr>, Some v')) \<and>
   (p_internal_handler s = Some h \<and> slot = Some v \<and>
    generate_schema H (h, v) = Some (descriptor, h', v') \<longrightarrow>
      generate_schema (PointerHandler k H) (s, slot) =
        Some (JObject [(''anyOf'', JArray [JObject [(''type'', JString ''null'')], descriptor])],
              s\<lparr>p_internal_handler := Some h'\<rparr>, Some v')) \<and>
   (p_internal_handler s = Some h \<and> slot = None \<and>
    generate_schema_gone H h = Some (descriptor, h') \<longrightarrow>
      generate_schema (PointerHandler k H) (s, slot) =
        Some (JObject [(''anyOf'', JArray [JObject [(''type'', JString ''null'')], descriptor])],
              s\<lparr>p_internal_handler := Some h'\<rparr>, None))"
  by (simp add: PointerHandler_def PointerHandler_generate_schema_def initialize_def
      anyOf_schema_def AddMember_def PushBack_def nullDescriptor_def)

theorem C6_schema_generation_fills_the_slot_witness:
  "generate_schema (PointerHandler UniquePtr IntHandler)
      (\<lparr>the_error = None, parsed = False, p_internal_handler = None, p_depth = 0\<rparr>, Some 7) =
     Some (JObject [(''anyOf'', JArray [JObject [(''type'', JString ''null'')],
                                      JObject [(''type'', JString ''integer'')]])],
           \<lparr>the_error = None, parsed = False,
            p_internal_handler = Some \<lparr>the_error = None, parsed = False\<rparr>, p_depth = 0\<rparr>,
           Some 0) \<and>
   generate_schema (PointerHandler UniquePtr (PointerHandler UniquePtr IntHandler))
      (\<lparr>the_error = None, parsed = False, p_internal_handler = None, p_depth = 0\<rparr>, None) =
     Some (JObject [(''anyOf'', JArray [JObject [(''type'', JString ''null'')],
              JObject [(''anyOf'', JArray [JObject [(''type'', JString ''null'')],
                                         JObject [(''type'', JString ''integer'')]])]])],
           \<lparr>the_error = None, parsed = False,
            p_internal_handler =
              Some \<lparr>the_error = None, parsed = False,
                    p_internal_handler = Some \<lparr>the_error = None, parsed = False\<rparr>,
                    p_depth = 0\<rparr>,
            p_depth = 0\<rparr>,
           Some (Some 0)) \<and>
   generate_schema (PointerHandler UniquePtr IntHandler)
      (\<lparr>the_error = None, parsed = True,
        p_internal_handler = Some \<lparr>the_error = None, parsed = True\<rparr>, p_depth = 0\<rparr>, Some 7) =
     Some (JObject [(''anyOf'', JArray [JObject [(''type'', JString ''null'')],
                                      JObject [(''type'', JString ''integer'')]])],
           \<lparr>the_error = None, parsed = True,
            p_internal_handler = Some \<lparr>the_error = None, parsed = True\<rparr>, p_depth = 0\<rparr>,
           Some 7) \<and>
   generate_schema (PointerHandler UniquePtr IntHandler)
      (\<lparr>the_error = None, parsed = True,
        p_internal_handler = Some \<lparr>the_error = None, parsed = True\<rparr>, p_depth = 0\<rparr>, None) =
     Some (JObject [(''anyOf'', JArray [JObject [(''type'', JString ''null'')],
                                      JObject [(''type'', JString ''integer'')]])],
           \<lparr>the_error = None, parsed = True,
            p_internal_handler = Some \<lparr>the_error = None, parsed = True\<rparr>, p_depth = 0\<rparr>,
           None)"
proof -
  let ?P = "PointerHandler UniquePtr IntHandler"
  let ?d = "JObject [(''type'', JString ''integer'')]"
  let ?u = "JObject [(''anyOf'', JArray [JObject [(''type'', JString ''null'')], ?d])]"
  let ?i = "\<lparr>the_error = None, parsed = False\<rparr>"
  let ?j = "\<lparr>the_error = None, parsed = True\<rparr>"
  let ?s0 = "\<lparr>the_error = None, parsed = False, p_internal_handler = None, p_depth = 0\<rparr>"
  let ?s1 = "\<lparr>the_error = None, parsed = False, p_internal_handler = Some ?i, p_depth = 0\<rparr>"
  let ?s2 = "\<lparr>the_error = None, parsed = True, p_internal_handler = Some ?j, p_depth = 0\<rparr>"
  note T = C6_schema_generation_fills_the_slot
  have g: "generate_schema IntHandler (hv :: BaseHandler \<times> 32 word) = Some (?d, hv)" for hv
    by (simp add: IntHandler_def AddMember_def)
  have gg: "generate_schema_gone IntHandler h = Some (?d, h)" for h
    by (simp add: IntHandler_def AddMember_def)
  have ci: "construct IntHandler = ?i" "default_value IntHandler = 0"
    by (simp_all add: IntHandler_def)
  have cp: "construct ?P = ?s0" "default_value ?P = None"
    by (simp_all add: PointerHandler_def PointerHandler_construct_def)
  have a: "generate_schema ?P (?s0, Some 7) = Some (?u, ?s1, Some 0)"
    using T [where s = ?s0 and H = IntHandler and descriptor = ?d and h' = ?i and v' = 0
        and k = UniquePtr and slot = "Some 7", THEN conjunct1]
    by (simp add: g ci)
  have a0: "generate_schema ?P (?s0, None) = Some (?u, ?s1, Some 0)"
    using T [where s = ?s0 and H = IntHandler and descriptor = ?d and h' = ?i and v' = 0
        and k = UniquePtr and slot = None, THEN conjunct1]
    by (simp add: g ci)
  have b: "generate_schema (PointerHandler UniquePtr ?P) (?s0, None) =
      Some (JObject [(''anyOf'', JArray [JObject [(''type'', JString ''null'')], ?u])],
            \<lparr>the_error = None, parsed = False, p_internal_handler = Some ?s1, p_depth = 0\<rparr>,
            Some (Some 0))"
    using T [where s = ?s0 and H = ?P and descriptor = ?u and h' = ?s1 and v' = "Some 0"
        and k = UniquePtr and slot = None, THEN conjunct1]
    by (simp add: a0 cp)
  have c: "generate_schema ?P (?s2, Some 7) = Some (?u, ?s2, Some 7)"
    using T [where s = ?s2 and H = IntHandler and descriptor = ?d and h = ?j and h' = ?j
        and v = 7 and v' = 7 and k = UniquePtr and slot = "Some 7",
        THEN conjunct2, THEN conjunct1]
    by (simp add: g)
  have d: "generate_schema ?P (?s2, None) = Some (?u, ?s2, None)"
    using T [where s = ?s2 and H = IntHandler and descriptor = ?d and h = ?j and h' = ?j
        and k = UniquePtr and slot = None, THEN conjunct2, THEN conjunct2]
    by (simp add: gg)
  show ?thesis
    using a b c d by simp
qed

theorem C6_schema_generation_counterexample:
  "generate_schema (PointerHandler UniquePtr IntHandler)
      (construct (PointerHandler UniquePtr IntHandler), None) =
     Some (JObject [(''anyOf'', JArray [JObject [(''type'', JString ''null'')],
                                      JObject [(''type'', JString ''integer'')]])],
           \<lparr>the_error = None, parsed = False,
            p_internal_handler = Some \<lparr>the_error = None, parsed = False\<rparr>, p_depth = 0\<rparr>,
           Some 0)"
  by (simp add: PointerHandler_def PointerHandler_construct_def PointerHandler_generate_schema_def
      initialize_def IntHandler_def anyOf_schema_def AddMember_def PushBack_def nullDescriptor_def)















subsection \<open>Decoding and writing whole containers\<close>

text \<open>A pass that has not failed and has not reached parsed goes on with the next events.\<close>

lemma decode_continues:
  assumes "decode H xs sv = Some (True, sv')" and "\<not> is_parsed H (fst sv')"
  shows "decode H (xs @ ys) sv = decode H ys sv'"
  using assms
  by (induction xs arbitrary: sv) (auto split: option.splits bool.splits prod.splits if_splits)

lemma ArrayHandler_is_parsed [simp]:
  "is_parsed (ArrayHandler k H) s = parsed s"
  by (simp add: ArrayHandler_def)

lemma MapHandler_is_parsed [simp]:
  "is_parsed (MapHandler k H) s = parsed s"
  by (simp add: MapHandler_def)

lemma ArrayHandler_step:
  assumes "array_depth_step (depth s) ev = Some d'"
  shows "on_event (ArrayHandler k H) ev (s, m_value) =
     (case on_event H ev (internal s, element s) of
        None \<Rightarrow> None
      | Some (ok, h', e') \<Rightarrow>
          Some (ArrayHandler_postcheck H ok (s\<lparr>depth := d', element := e', internal := h'\<rparr>, m_value)))"
proof -
  have same: "s\<lparr>depth := depth s, element := e', internal := h'\<rparr> = s\<lparr>element := e', internal := h'\<rparr>"
    for e' h'
    by simp
  show ?thesis
    using assms
    by (cases ev)
       (auto simp add: ArrayHandler_def ArrayHandler_checked_def ArrayHandler_precheck_def
          ArrayHandler_StartArray_def ArrayHandler_EndArray_def ArrayHandler_forward_def
          INT_MIN_def INT_MAX_def same split: option.splits if_splits)
qed

lemma ArrayHandler_element_document:
  assumes "element_document H evs (internal s, element s) = Some (h', v)"
    and "array_depth_after (depth s) evs = Some d'" and "\<not> parsed s"
  shows "decode (ArrayHandler k H) evs (s, m_value) =
     Some (True,
           s\<lparr>depth := d',
             element := snd (prepare_for_reuse H (h', default_value H)),
             internal := fst (prepare_for_reuse H (h', default_value H))\<rparr>,
           m_value @ [v])"
  using assms
proof (induction evs arbitrary: s)
  case Nil
  then show ?case by simp
next
  case (Cons ev evs)
  from Cons.prems(2) obtain d1 where d1: "array_depth_step (depth s) ev = Some d1"
    and rest: "array_depth_after d1 evs = Some d'"
    by (auto split: option.splits)
  from Cons.prems(1) obtain h1 e1 where inner: "on_event H ev (internal s, element s) = Some (True, h1, e1)"
    and after: "if is_parsed H h1 then evs = [] \<and> h1 = h' \<and> e1 = v
                else element_document H evs (h1, e1) = Some (h', v)"
    by (auto split: option.splits bool.splits if_splits)
  let ?s1 = "s\<lparr>depth := d1, element := e1, internal := h1\<rparr>"
  have step: "on_event (ArrayHandler k H) ev (s, m_value) =
      Some (ArrayHandler_postcheck H True (?s1, m_value))"
    using ArrayHandler_step [OF d1, of k H m_value] inner by simp
  show ?case
  proof (cases "is_parsed H h1")
    case True
    with after rest have "evs = []" "h1 = h'" "e1 = v" "d1 = d'" by auto
    then show ?thesis
      using step True Cons.prems(3) by (simp add: ArrayHandler_postcheck_def Let_def)
  next
    case False
    with after have ed: "element_document H evs (internal ?s1, element ?s1) = Some (h', v)"
      by simp
    have dd: "array_depth_after (depth ?s1) evs = Some d'"
      using rest by simp
    have np: "\<not> parsed ?s1"
      using Cons.prems(3) by simp
    have "decode (ArrayHandler k H) (ev # evs) (s, m_value) =
        decode (ArrayHandler k H) evs (?s1, m_value)"
      using step False np by (simp add: ArrayHandler_postcheck_def)
    also have "\<dots> = Some (True,
           ?s1\<lparr>depth := d',
             element := snd (prepare_for_reuse H (h', default_value H)),
             internal := fst (prepare_for_reuse H (h', default_value H))\<rparr>,
           m_value @ [v])"
      by (rule Cons.IH [OF ed dd np])
    finally show ?thesis by simp
  qed
qed

lemma prepare_for_reuse_fresh:
  "prepare_for_reuse H (h, default_value H) \<in> fresh_states H"
  by (simp add: fresh_states_def)

lemma construct_fresh:
  "(construct H, default_value H) \<in> fresh_states H"
  by (simp add: fresh_states_def)

lemma ArrayHandler_element_documents:
  assumes "(internal s, element s) \<in> fresh_states H" and "depth s = 1"
    and "\<forall>d \<in> set docs. decodes_to H (fst d) (snd d) \<and> array_depth_after 1 (fst d) = Some 1"
    and "\<not> parsed s"
  shows "\<exists>h e. (h, e) \<in> fresh_states H \<and>
     decode (ArrayHandler k H) (concat (map fst docs)) (s, m_value) =
       Some (True, s\<lparr>element := e, internal := h\<rparr>, m_value @ map snd docs)"
  using assms
proof (induction docs arbitrary: s m_value)
  case Nil
  have "s\<lparr>element := element s, internal := internal s\<rparr> = s" by simp
  with Nil.prems(1) show ?case
    by (intro exI [of _ "internal s"] exI [of _ "element s"]) simp
next
  case (Cons d docs)
  from Cons.prems(1,3) obtain h' where
    ed: "element_document H (fst d) (internal s, element s) = Some (h', snd d)"
    by (auto simp: decodes_to_def)
  from Cons.prems(2,3) have dd: "array_depth_after (depth s) (fst d) = Some 1"
    by simp
  let ?he = "prepare_for_reuse H (h', default_value H)"
  let ?s1 = "s\<lparr>depth := 1, element := snd ?he, internal := fst ?he\<rparr>"
  have one: "decode (ArrayHandler k H) (fst d) (s, m_value) = Some (True, ?s1, m_value @ [snd d])"
    by (rule ArrayHandler_element_document [OF ed dd Cons.prems(4)])
  have np: "\<not> parsed ?s1"
    using Cons.prems(4) by simp
  have f1: "(internal ?s1, element ?s1) \<in> fresh_states H"
    using prepare_for_reuse_fresh [of H h'] by simp
  have d1: "depth ?s1 = 1" by simp
  from Cons.prems(3) have rest:
    "\<forall>d \<in> set docs. decodes_to H (fst d) (snd d) \<and> array_depth_after 1 (fst d) = Some 1"
    by simp
  from Cons.IH [OF f1 d1 rest np, of "m_value @ [snd d]"] obtain h e where
    fresh: "(h, e) \<in> fresh_states H" and
    run: "decode (ArrayHandler k H) (concat (map fst docs)) (?s1, m_value @ [snd d]) =
       Some (True, ?s1\<lparr>element := e, internal := h\<rparr>, (m_value @ [snd d]) @ map snd docs)"
    by blast
  have same: "?s1\<lparr>element := e, internal := h\<rparr> = s\<lparr>element := e, internal := h\<rparr>"
    using Cons.prems(2) by simp
  have "decode (ArrayHandler k H) (fst d @ concat (map fst docs)) (s, m_value) =
      decode (ArrayHandler k H) (concat (map fst docs)) (?s1, m_value @ [snd d])"
    using decode_continues [OF one] np by simp
  then show ?case
    using fresh run same
    by (intro exI [of _ h] exI [of _ e]) simp
qed

lemma ArrayHandler_decodes_documents:
  assumes "\<forall>d \<in> set docs. decodes_to H (fst d) (snd d) \<and> array_depth_after 1 (fst d) = Some 1"
  shows "\<exists>s'. decode (ArrayHandler k H) (EvStartArray # concat (map fst docs) @ [EvEndArray n])
            (construct (ArrayHandler k H), m_value) =
          Some (True, s', m_value @ map snd docs) \<and> parsed s' \<and> depth s' = 0 \<and> the_error s' = None"
proof -
  let ?A = "ArrayHandler k H"
  let ?s1 = "(construct ?A)\<lparr>depth := 1\<rparr>"
  have c: "construct ?A = ArrayHandler_construct H"
    by (simp add: ArrayHandler_def)
  have start: "on_event ?A EvStartArray (construct ?A, m_value) = Some (True, ?s1, m_value)"
    by (simp add: ArrayHandler_def ArrayHandler_StartArray_def ArrayHandler_construct_def INT_MAX_def)
  have f: "(internal ?s1, element ?s1) \<in> fresh_states H"
    using construct_fresh [of H] by (simp add: c ArrayHandler_construct_def)
  have d: "depth ?s1 = 1" by simp
  have np: "\<not> parsed ?s1"
    by (simp add: c ArrayHandler_construct_def)
  from ArrayHandler_element_documents [OF f d assms np, of k m_value] obtain h e where
    run: "decode ?A (concat (map fst docs)) (?s1, m_value) =
       Some (True, ?s1\<lparr>element := e, internal := h\<rparr>, m_value @ map snd docs)"
    by blast
  let ?s2 = "?s1\<lparr>element := e, internal := h\<rparr>"
  have stop: "on_event ?A (EvEndArray n) (?s2, m_value @ map snd docs) =
      Some (True, ?s2\<lparr>depth := 0, parsed := True\<rparr>, m_value @ map snd docs)"
    by (simp add: ArrayHandler_def ArrayHandler_EndArray_def INT_MIN_def)
  have np2: "\<not> is_parsed ?A (fst (?s2, m_value @ map snd docs))"
    using np by simp
  have "decode ?A (concat (map fst docs) @ [EvEndArray n]) (?s1, m_value) =
      decode ?A [EvEndArray n] (?s2, m_value @ map snd docs)"
    by (rule decode_continues [OF run np2])
  then have "decode ?A (EvStartArray # concat (map fst docs) @ [EvEndArray n]) (construct ?A, m_value) =
      Some (True, ?s2\<lparr>depth := 0, parsed := True\<rparr>, m_value @ map snd docs)"
    using start stop np by simp
  moreover have "the_error (?s2\<lparr>depth := 0, parsed := True\<rparr>) = None"
    by (simp add: c ArrayHandler_construct_def)
  ultimately show ?thesis
    by (intro exI [of _ "?s2\<lparr>depth := 0, parsed := True\<rparr>"]) simp
qed

lemma emit_accepting:
  "accepting out \<Longrightarrow> emit ev out = (True, out\<lparr>accepted := accepted out @ [ev]\<rparr>)"
  by (simp add: emit_def accepting_def)

lemma accepting_update [simp]:
  "accepting (out\<lparr>accepted := evs\<rparr>) = accepting out"
  by (simp add: accepting_def)

lemma write_elements_accepting:
  assumes "accepting out" and "\<forall>v \<in> set vs. writes_as H v (enc v)"
  shows "write_elements H vs out = (True, out\<lparr>accepted := accepted out @ concat (map enc vs)\<rparr>)"
  using assms
proof (induction vs arbitrary: out)
  case Nil
  then show ?case by simp
next
  case (Cons v vs)
  from Cons.prems obtain h where
    w: "write_to H (construct H) v out = (True, h, out\<lparr>accepted := accepted out @ enc v\<rparr>)"
    by (auto simp: writes_as_def)
  have a: "accepting (out\<lparr>accepted := accepted out @ enc v\<rparr>)"
    using Cons.prems(1) by simp
  from Cons.prems(2) have r: "\<forall>v \<in> set vs. writes_as H v (enc v)" by simp
  show ?case
    using w Cons.IH [OF a r] by simp
qed

lemma ArrayHandler_write_accepting:
  assumes "accepting out" and "\<forall>v \<in> set vs. writes_as H v (enc v)"
  shows "write_to (ArrayHandler k H) s vs out =
     (True, s,
      out\<lparr>accepted := accepted out @
             EvStartArray # concat (map enc vs) @ [EvEndArray (of_nat (length vs))]\<rparr>)"
proof -
  let ?o1 = "out\<lparr>accepted := accepted out @ [EvStartArray]\<rparr>"
  have a1: "accepting ?o1" using assms(1) by simp
  let ?o2 = "?o1\<lparr>accepted := accepted ?o1 @ concat (map enc vs)\<rparr>"
  have a2: "accepting ?o2" using assms(1) by simp
  show ?thesis
    using emit_accepting [OF assms(1), of EvStartArray]
      write_elements_accepting [OF a1 assms(2)]
      emit_accepting [OF a2, of "EvEndArray (of_nat (length vs))"]
    by (simp add: ArrayHandler_def ArrayHandler_write_def)
qed

lemma MapHandler_step:
  assumes "object_depth_step (m_depth s) ev = Some d'"
  shows "on_event (MapHandler k H) ev (s, m_value) =
     (case on_event H ev (m_internal_handler s, m_element s) of
        None \<Rightarrow> None
      | Some (ok, h', e') \<Rightarrow>
          Some (MapHandler_postcheck k H ok
                  (s\<lparr>m_depth := d', m_element := e', m_internal_handler := h'\<rparr>, m_value)))"
proof -
  have same: "s\<lparr>m_depth := m_depth s, m_element := e', m_internal_handler := h'\<rparr> =
      s\<lparr>m_element := e', m_internal_handler := h'\<rparr>"
    for e' h'
    by simp
  show ?thesis
    using assms
    by (cases ev)
       (auto simp add: MapHandler_def MapHandler_checked_def MapHandler_precheck_def
          MapHandler_StartObject_def MapHandler_EndObject_def MapHandler_forward_def
          MapHandler_Key_def INT_MIN_def INT_MAX_def same split: option.splits if_splits)
qed

lemma MapHandler_element_document:
  assumes "element_document H evs (m_internal_handler s, m_element s) = Some (h', v)"
    and "object_depth_after (m_depth s) evs = Some d'" and "\<not> parsed s"
  shows "decode (MapHandler k H) evs (s, m_value) =
     Some (True,
           s\<lparr>m_depth := d',
             m_element := snd (prepare_for_reuse H (h', default_value H)),
             m_internal_handler := fst (prepare_for_reuse H (h', default_value H)),
             current_key := []\<rparr>,
           emplace k (current_key s) v m_value)"
  using assms
proof (induction evs arbitrary: s)
  case Nil
  then show ?case by simp
next
  case (Cons ev evs)
  from Cons.prems(2) obtain d1 where d1: "object_depth_step (m_depth s) ev = Some d1"
    and rest: "object_depth_after d1 evs = Some d'"
    by (auto split: option.splits)
  from Cons.prems(1) obtain h1 e1 where
    inner: "on_event H ev (m_internal_handler s, m_element s) = Some (True, h1, e1)"
    and after: "if is_parsed H h1 then evs = [] \<and> h1 = h' \<and> e1 = v
                else element_document H evs (h1, e1) = Some (h', v)"
    by (auto split: option.splits bool.splits if_splits)
  let ?s1 = "s\<lparr>m_depth := d1, m_element := e1, m_internal_handler := h1\<rparr>"
  have step: "on_event (MapHandler k H) ev (s, m_value) =
      Some (MapHandler_postcheck k H True (?s1, m_value))"
    using MapHandler_step [OF d1, of k H m_value] inner by simp
  show ?case
  proof (cases "is_parsed H h1")
    case True
    with after rest have "evs = []" "h1 = h'" "e1 = v" "d1 = d'" by auto
    then show ?thesis
      using step True Cons.prems(3) by (simp add: MapHandler_postcheck_def Let_def)
  next
    case False
    with after have ed:
      "element_document H evs (m_internal_handler ?s1, m_element ?s1) = Some (h', v)"
      by simp
    have dd: "object_depth_after (m_depth ?s1) evs = Some d'"
      using rest by simp
    have np: "\<not> parsed ?s1"
      using Cons.prems(3) by simp
    have "decode (MapHandler k H) (ev # evs) (s, m_value) =
        decode (MapHandler k H) evs (?s1, m_value)"
      using step False np by (simp add: MapHandler_postcheck_def)
    also have "\<dots> = Some (True,
           ?s1\<lparr>m_depth := d',
             m_element := snd (prepare_for_reuse H (h', default_value H)),
             m_internal_handler := fst (prepare_for_reuse H (h', default_value H)),
             current_key := []\<rparr>,
           emplace k (current_key ?s1) v m_value)"
      by (rule Cons.IH [OF ed dd np])
    finally show ?thesis by simp
  qed
qed

lemma MapHandler_members:
  assumes "(m_internal_handler s, m_element s) \<in> fresh_states H" and "m_depth s = 1"
    and "\<forall>m \<in> set ms. decodes_to H (fst (snd m)) (snd (snd m)) \<and>
           object_depth_after 1 (fst (snd m)) = Some 1"
    and "\<not> parsed s"
  shows "\<exists>h e key. (h, e) \<in> fresh_states H \<and>
     decode (MapHandler k H) (entry_events copy ms) (s, m_value) =
       Some (True, s\<lparr>m_element := e, m_internal_handler := h, current_key := key\<rparr>,
             emplace_all k ms m_value)"
  using assms
proof (induction ms arbitrary: s m_value)
  case Nil
  have "s\<lparr>m_element := m_element s, m_internal_handler := m_internal_handler s,
          current_key := current_key s\<rparr> = s"
    by simp
  with Nil.prems(1) show ?case
    by (intro exI [of _ "m_internal_handler s"] exI [of _ "m_element s"]
          exI [of _ "current_key s"]) simp
next
  case (Cons m ms)
  let ?s0 = "s\<lparr>current_key := fst m\<rparr>"
  have key: "on_event (MapHandler k H) (EvKey (fst m) copy) (s, m_value) = Some (True, ?s0, m_value)"
    using Cons.prems(2) by (simp add: MapHandler_def MapHandler_Key_def)
  from Cons.prems(1,3) obtain h' where
    ed: "element_document H (fst (snd m)) (m_internal_handler ?s0, m_element ?s0) =
           Some (h', snd (snd m))"
    by (auto simp: decodes_to_def)
  from Cons.prems(2,3) have dd: "object_depth_after (m_depth ?s0) (fst (snd m)) = Some 1"
    by simp
  let ?he = "prepare_for_reuse H (h', default_value H)"
  let ?s1 = "?s0\<lparr>m_depth := 1, m_element := snd ?he, m_internal_handler := fst ?he,
                 current_key := []\<rparr>"
  let ?m1 = "emplace k (fst m) (snd (snd m)) m_value"
  have np0: "\<not> parsed ?s0"
    using Cons.prems(4) by simp
  have one: "decode (MapHandler k H) (fst (snd m)) (?s0, m_value) = Some (True, ?s1, ?m1)"
    using MapHandler_element_document [OF ed dd np0, of k m_value] by simp
  have np: "\<not> parsed ?s1"
    using Cons.prems(4) by simp
  have f1: "(m_internal_handler ?s1, m_element ?s1) \<in> fresh_states H"
    using prepare_for_reuse_fresh [of H h'] by simp
  have d1: "m_depth ?s1 = 1" by simp
  from Cons.prems(3) have rest:
    "\<forall>m \<in> set ms. decodes_to H (fst (snd m)) (snd (snd m)) \<and>
           object_depth_after 1 (fst (snd m)) = Some 1"
    by simp
  from Cons.IH [OF f1 d1 rest np, of ?m1] obtain h e key' where
    fresh: "(h, e) \<in> fresh_states H" and
    run: "decode (MapHandler k H) (entry_events copy ms) (?s1, ?m1) =
       Some (True, ?s1\<lparr>m_element := e, m_internal_handler := h, current_key := key'\<rparr>,
             emplace_all k ms ?m1)"
    by blast
  have same: "?s1\<lparr>m_element := e, m_internal_handler := h, current_key := key'\<rparr> =
      s\<lparr>m_element := e, m_internal_handler := h, current_key := key'\<rparr>"
    using Cons.prems(2) by simp
  have "decode (MapHandler k H) (fst (snd m) @ entry_events copy ms) (?s0, m_value) =
      decode (MapHandler k H) (entry_events copy ms) (?s1, ?m1)"
    using decode_continues [OF one] np by simp
  then show ?case
    using fresh key run same np0
    by (intro exI [of _ h] exI [of _ e] exI [of _ key']) simp
qed

lemma MapHandler_decodes_members:
  assumes "\<forall>m \<in> set ms. decodes_to H (fst (snd m)) (snd (snd m)) \<and>
           object_depth_after 1 (fst (snd m)) = Some 1"
  shows "\<exists>s'. decode (MapHandler k H) (EvStartObject # entry_events copy ms @ [EvEndObject n])
            (construct (MapHandler k H), m_value) =
          Some (True, s', emplace_all k ms m_value) \<and>
          parsed s' \<and> m_depth s' = 0 \<and> the_error s' = None"
proof -
  let ?M = "MapHandler k H"
  let ?s1 = "(construct ?M)\<lparr>m_depth := 1\<rparr>"
  have c: "construct ?M = MapHandler_construct H"
    by (simp add: MapHandler_def)
  have start: "on_event ?M EvStartObject (construct ?M, m_value) = Some (True, ?s1, m_value)"
    by (simp add: MapHandler_def MapHandler_StartObject_def MapHandler_construct_def INT_MAX_def)
  have f: "(m_internal_handler ?s1, m_element ?s1) \<in> fresh_states H"
    using construct_fresh [of H] by (simp add: c MapHandler_construct_def)
  have d: "m_depth ?s1 = 1" by simp
  have np: "\<not> parsed ?s1"
    by (simp add: c MapHandler_construct_def)
  from MapHandler_members [OF f d assms np, of k copy m_value] obtain h e key where
    run: "decode ?M (entry_events copy ms) (?s1, m_value) =
       Some (True, ?s1\<lparr>m_element := e, m_internal_handler := h, current_key := key\<rparr>,
             emplace_all k ms m_value)"
    by blast
  let ?s2 = "?s1\<lparr>m_element := e, m_internal_handler := h, current_key := key\<rparr>"
  have stop: "on_event ?M (EvEndObject n) (?s2, emplace_all k ms m_value) =
      Some (True, ?s2\<lparr>m_depth := 0, parsed := True\<rparr>, emplace_all k ms m_value)"
    by (simp add: MapHandler_def MapHandler_EndObject_def INT_MIN_def)
  have np2: "\<not> is_parsed ?M (fst (?s2, emplace_all k ms m_value))"
    using np by simp
  have "decode ?M (entry_events copy ms @ [EvEndObject n]) (?s1, m_value) =
      decode ?M [EvEndObject n] (?s2, emplace_all k ms m_value)"
    by (rule decode_continues [OF run np2])
  then have "decode ?M (EvStartObject # entry_events copy ms @ [EvEndObject n]) (construct ?M, m_value) =
      Some (True, ?s2\<lparr>m_depth := 0, parsed := True\<rparr>, emplace_all k ms m_value)"
    using start stop np by simp
  moreover have "the_error (?s2\<lparr>m_depth := 0, parsed := True\<rparr>) = None"
    by (simp add: c MapHandler_construct_def)
  ultimately show ?thesis
    by (intro exI [of _ "?s2\<lparr>m_depth := 0, parsed := True\<rparr>"]) simp
qed

lemma write_entries_accepting:
  assumes "accepting out" and "\<forall>p \<in> set ps. writes_as H (snd p) (enc (snd p))"
  shows "write_entries H ps out =
     (True, out\<lparr>accepted := accepted out @
                  concat (map (\<lambda>p. EvKey (fst p) True # enc (snd p)) ps)\<rparr>)"
  using assms
proof (induction ps arbitrary: out)
  case Nil
  then show ?case by simp
next
  case (Cons p ps)
  let ?o1 = "out\<lparr>accepted := accepted out @ [EvKey (fst p) True]\<rparr>"
  have a1: "accepting ?o1" using Cons.prems(1) by simp
  from Cons.prems(2) a1 obtain h where
    w: "write_to H (construct H) (snd p) ?o1 =
          (True, h, ?o1\<lparr>accepted := accepted ?o1 @ enc (snd p)\<rparr>)"
    unfolding writes_as_def by (metis list.set_intros(1))
  have a2: "accepting (?o1\<lparr>accepted := accepted ?o1 @ enc (snd p)\<rparr>)"
    using Cons.prems(1) by simp
  from Cons.prems(2) have r: "\<forall>p \<in> set ps. writes_as H (snd p) (enc (snd p))" by simp
  show ?case
    using emit_accepting [OF Cons.prems(1), of "EvKey (fst p) True"] w Cons.IH [OF a2 r]
    by simp
qed

lemma MapHandler_write_accepting:
  assumes "accepting out" and "\<forall>p \<in> set ps. writes_as H (snd p) (enc (snd p))"
  shows "write_to (MapHandler k H) s ps out =
     (True, s,
      out\<lparr>accepted := accepted out @
             EvStartObject # concat (map (\<lambda>p. EvKey (fst p) True # enc (snd p)) ps) @
             [EvEndObject (of_nat (length ps))]\<rparr>)"
proof -
  let ?o1 = "out\<lparr>accepted := accepted out @ [EvStartObject]\<rparr>"
  have a1: "accepting ?o1" using assms(1) by simp
  let ?o2 = "?o1\<lparr>accepted := accepted ?o1 @
                concat (map (\<lambda>p. EvKey (fst p) True # enc (snd p)) ps)\<rparr>"
  have a2: "accepting ?o2" using assms(1) by simp
  show ?thesis
    using emit_accepting [OF assms(1), of EvStartObject]
      write_entries_accepting [OF a1 assms(2)]
      emit_accepting [OF a2, of "EvEndObject (of_nat (length ps))"]
    by (simp add: MapHandler_def MapHandler_write_def)
qed

lemma arranges_first:
  assumes "arranges place"
  shows "place a x [] = [(a, x)]"
proof -
  have "mset (place a x []) = {#(a, x)#}"
    using assms by (simp add: arranges_def)
  then show ?thesis
    by (cases "place a x []") auto
qed

lemma emplace_first:
  "keeps_entries k \<Longrightarrow> emplace k a x [] = [(a, x)]"
  by (cases k) (simp_all add: arranges_first)

lemma emplace_second:
  assumes "keeps_entries k"
  shows "mset (emplace k b y [(a, x)]) =
     (if a = b \<and> \<not> multi k then {#(a, x)#} else {#(a, x), (b, y)#})"
  using assms by (cases k) (auto simp: arranges_def)

lemma emplace_second_set:
  assumes "keeps_entries k"
  shows "set (emplace k b y [(a, x)]) \<subseteq> {(a, x), (b, y)}"
proof -
  have "set (emplace k b y [(a, x)]) = set_mset (mset (emplace k b y [(a, x)]))"
    by simp
  also have "\<dots> \<subseteq> {(a, x), (b, y)}"
    unfolding emplace_second [OF assms] by auto
  finally show ?thesis .
qed

lemma emplace_same_key_single:
  assumes "keeps_entries k" and "\<not> multi k"
  shows "emplace k a y [(a, x)] = [(a, x)]"
  using assms by (cases k) simp_all

text \<open>
  C4. Round trip. For each kind of sequential container and every element handler: the
  events of an array whose elements are valid element documents decode, from a fresh
  handler bound to an empty container, to the elements' values in the order of the input,
  with the parsed flag set; writing that container into an accepting sink emits begin-array,
  the events of each element in order (as the element handler writes them), and end-array
  with the element count (as a \<open>SizeType\<close>). For each kind of keyed map whose insertion keeps
  the entries: the events of \<open>{a: X, b: Y}\<close> decode to the container obtained by inserting
  \<open>(a, x)\<close> and then \<open>(b, y)\<close>; for different keys its entries are exactly these two, for equal
  keys the multimap kinds keep both (\<open>std::multimap\<close> in the order of insertion) and the plain
  kinds keep the first; writing emits begin-object, each entry of the container in its
  iteration order as its key followed by the events of its value, and end-object with the
  entry count.
\<close>

theorem C4_round_trip:
  "((\<forall>d \<in> set docs. decodes_to H (fst d) (snd d) \<and> array_depth_after 1 (fst d) = Some 1 \<and>
                     writes_as H (snd d) (enc (snd d))) \<and>
    accepting out \<longrightarrow>
      (\<exists>s'. decode (ArrayHandler k H) (EvStartArray # concat (map fst docs) @ [EvEndArray n])
               (construct (ArrayHandler k H), []) =
             Some (True, s', map snd docs) \<and>
            parsed s' \<and>
            write_to (ArrayHandler k H) s' (map snd docs) out =
              (True, s',
               out\<lparr>accepted := accepted out @
                      EvStartArray # concat (map (\<lambda>d. enc (snd d)) docs) @
                      [EvEndArray (of_nat (length docs))]\<rparr>))) \<and>
   (decodes_to G X x \<and> object_depth_after 1 X = Some 1 \<and> writes_as G x (enc' x) \<and>
    decodes_to G Y y \<and> object_depth_after 1 Y = Some 1 \<and> writes_as G y (enc' y) \<and>
    accepting out \<and> keeps_entries j \<longrightarrow>
      (\<exists>t'. decode (MapHandler j G)
               (EvStartObject # EvKey a copy # X @ EvKey b copy # Y @ [EvEndObject n'])
               (construct (MapHandler j G), []) =
             Some (True, t', emplace j b y (emplace j a x [])) \<and>
            parsed t' \<and>
            (a \<noteq> b \<longrightarrow> mset (emplace j b y (emplace j a x [])) = {#(a, x), (b, y)#}) \<and>
            (a = b \<and> multi j \<longrightarrow>
               mset (emplace j b y (emplace j a x [])) = {#(a, x), (a, y)#}) \<and>
            (a = b \<and> j = Multimap \<longrightarrow>
               emplace j b y (emplace j a x []) = [(a, x), (a, y)]) \<and>
            (a = b \<and> \<not> multi j \<longrightarrow>
               emplace j b y (emplace j a x []) = [(a, x)]) \<and>
            write_to (MapHandler j G) t' (emplace j b y (emplace j a x [])) out =
              (True, t',
               out\<lparr>accepted := accepted out @
                      EvStartObject #
                      concat (map (\<lambda>p. EvKey (fst p) True # enc' (snd p))
                                (emplace j b y (emplace j a x []))) @
                      [EvEndObject (of_nat (length (emplace j b y (emplace j a x []))))]\<rparr>)))"
proof (intro conjI impI)
  assume a: "(\<forall>d \<in> set docs. decodes_to H (fst d) (snd d) \<and> array_depth_after 1 (fst d) = Some 1 \<and>
                     writes_as H (snd d) (enc (snd d))) \<and> accepting out"
  then have valid: "\<forall>d \<in> set docs. decodes_to H (fst d) (snd d) \<and>
      array_depth_after 1 (fst d) = Some 1"
    by blast
  from a have wr: "\<forall>v \<in> set (map snd docs). writes_as H v (enc v)"
    by auto
  from a have acc: "accepting out"
    by blast
  from ArrayHandler_decodes_documents [OF valid, of k n "[]"] obtain s' where
    run: "decode (ArrayHandler k H) (EvStartArray # concat (map fst docs) @ [EvEndArray n])
            (construct (ArrayHandler k H), []) = Some (True, s', map snd docs)"
    and p: "parsed s'"
    by auto
  have w: "write_to (ArrayHandler k H) s' (map snd docs) out =
      (True, s',
       out\<lparr>accepted := accepted out @
              EvStartArray # concat (map (\<lambda>d. enc (snd d)) docs) @
              [EvEndArray (of_nat (length docs))]\<rparr>)"
    using ArrayHandler_write_accepting [OF acc wr, of k s'] by (simp add: comp_def)
  show "\<exists>s'. decode (ArrayHandler k H) (EvStartArray # concat (map fst docs) @ [EvEndArray n])
               (construct (ArrayHandler k H), []) =
             Some (True, s', map snd docs) \<and>
            parsed s' \<and>
            write_to (ArrayHandler k H) s' (map snd docs) out =
              (True, s',
               out\<lparr>accepted := accepted out @
                      EvStartArray # concat (map (\<lambda>d. enc (snd d)) docs) @
                      [EvEndArray (of_nat (length docs))]\<rparr>)"
    using run p w by blast
next
  assume a: "decodes_to G X x \<and> object_depth_after 1 X = Some 1 \<and> writes_as G x (enc' x) \<and>
    decodes_to G Y y \<and> object_depth_after 1 Y = Some 1 \<and> writes_as G y (enc' y) \<and>
    accepting out \<and> keeps_entries j"
  let ?ms = "[(a, X, x), (b, Y, y)]"
  let ?entries = "emplace j b y (emplace j a x [])"
  have valid: "\<forall>m \<in> set ?ms. decodes_to G (fst (snd m)) (snd (snd m)) \<and>
      object_depth_after 1 (fst (snd m)) = Some 1"
    using a by simp
  from a have acc: "accepting out" and keeps: "keeps_entries j"
    by blast+
  have first: "emplace j a x [] = [(a, x)]"
    by (rule emplace_first [OF keeps])
  have vals: "set ?entries \<subseteq> {(a, x), (b, y)}"
    using emplace_second_set [OF keeps, of b y a x] by (simp add: first)
  have wr: "\<forall>p \<in> set ?entries. writes_as G (snd p) (enc' (snd p))"
    using a vals by auto
  from MapHandler_decodes_members [OF valid, of j copy n' "[]"] obtain t' where
    run: "decode (MapHandler j G)
            (EvStartObject # EvKey a copy # X @ EvKey b copy # Y @ [EvEndObject n'])
            (construct (MapHandler j G), []) = Some (True, t', ?entries)"
    and p: "parsed t'"
    by auto
  have w: "write_to (MapHandler j G) t' ?entries out =
      (True, t',
       out\<lparr>accepted := accepted out @
              EvStartObject #
              concat (map (\<lambda>p. EvKey (fst p) True # enc' (snd p)) ?entries) @
              [EvEndObject (of_nat (length ?entries))]\<rparr>)"
    by (rule MapHandler_write_accepting [OF acc wr])
  have e1: "a \<noteq> b \<longrightarrow> mset ?entries = {#(a, x), (b, y)#}"
    using emplace_second [OF keeps, of b y a x] by (simp add: first)
  have e2: "a = b \<and> multi j \<longrightarrow> mset ?entries = {#(a, x), (a, y)#}"
    unfolding first using emplace_second [OF keeps, of b y a x] by auto
  have e3: "a = b \<and> j = Multimap \<longrightarrow> ?entries = [(a, x), (a, y)]"
    by auto
  have e4: "a = b \<and> \<not> multi j \<longrightarrow> ?entries = [(a, x)]"
    unfolding first using emplace_same_key_single [OF keeps, of a y x] by auto
  show "\<exists>t'. decode (MapHandler j G)
               (EvStartObject # EvKey a copy # X @ EvKey b copy # Y @ [EvEndObject n'])
               (construct (MapHandler j G), []) =
             Some (True, t', ?entries) \<and>
            parsed t' \<and>
            (a \<noteq> b \<longrightarrow> mset ?entries = {#(a, x), (b, y)#}) \<and>
            (a = b \<and> multi j \<longrightarrow> mset ?entries = {#(a, x), (a, y)#}) \<and>
            (a = b \<and> j = Multimap \<longrightarrow> ?entries = [(a, x), (a, y)]) \<and>
            (a = b \<and> \<not> multi j \<longrightarrow> ?entries = [(a, x)]) \<and>
            write_to (MapHandler j G) t' ?entries out =
              (True, t',
               out\<lparr>accepted := accepted out @
                      EvStartObject #
                      concat (map (\<lambda>p. EvKey (fst p) True # enc' (snd p)) ?entries) @
                      [EvEndObject (of_nat (length ?entries))]\<rparr>)"
    using run p w e1 e2 e3 e4 by blast
qed

theorem C4_round_trip_witness:
  "(\<exists>s'. decode (ArrayHandler Vector IntHandler) [EvStartArray, EvInt 1, EvInt 2, EvEndArray 2]
           (construct (ArrayHandler Vector IntHandler), []) =
         Some (True, s', [1, 2]) \<and>
        parsed s' \<and>
        write_to (ArrayHandler Vector IntHandler) s' [1, 2]
           \<lparr>accepts = (\<lambda>evs ev. True), accepted = []\<rparr> =
         (True, s',
          \<lparr>accepts = (\<lambda>evs ev. True),
           accepted = [EvStartArray, EvInt 1, EvInt 2, EvEndArray 2]\<rparr>)) \<and>
   (\<exists>t'. decode (MapHandler Map IntHandler)
           [EvStartObject, EvKey ''a'' False, EvInt 1, EvKey ''b'' False, EvInt 2, EvEndObject 2]
           (construct (MapHandler Map IntHandler), []) =
         Some (True, t', [(''a'', 1), (''b'', 2)]) \<and>
        parsed t' \<and>
        mset [(''a'', 1 :: 32 word), (''b'', 2)] = {#(''a'', 1), (''b'', 2)#} \<and>
        write_to (MapHandler Map IntHandler) t' [(''a'', 1), (''b'', 2)]
           \<lparr>accepts = (\<lambda>evs ev. True), accepted = []\<rparr> =
         (True, t',
          \<lparr>accepts = (\<lambda>evs ev. True),
           accepted = [EvStartObject, EvKey ''a'' True, EvInt 1, EvKey ''b'' True, EvInt 2,
                       EvEndObject 2]\<rparr>)) \<and>
   (\<exists>t'. decode (MapHandler Multimap IntHandler)
           [EvStartObject, EvKey ''a'' False, EvInt 1, EvKey ''a'' False, EvInt 2, EvEndObject 2]
           (construct (MapHandler Multimap IntHandler), []) =
         Some (True, t', [(''a'', 1), (''a'', 2)]) \<and>
        parsed t' \<and>
        write_to (MapHandler Multimap IntHandler) t' [(''a'', 1), (''a'', 2)]
           \<lparr>accepts = (\<lambda>evs ev. True), accepted = []\<rparr> =
         (True, t',
          \<lparr>accepts = (\<lambda>evs ev. True),
           accepted = [EvStartObject, EvKey ''a'' True, EvInt 1, EvKey ''a'' True, EvInt 2,
                       EvEndObject 2]\<rparr>)) \<and>
   (\<exists>t'. decode (MapHandler Map IntHandler)
           [EvStartObject, EvKey ''a'' False, EvInt 1, EvKey ''a'' False, EvInt 2, EvEndObject 2]
           (construct (MapHandler Map IntHandler), []) =
         Some (True, t', [(''a'', 1)]) \<and>
        parsed t') \<and>
   (\<exists>t'. decode (MapHandler (UnorderedMultimap (\<lambda>k v m. (k, v) # m)) IntHandler)
           [EvStartObject, EvKey ''a'' False, EvInt 1, EvKey ''a'' False, EvInt 2, EvEndObject 2]
           (construct (MapHandler (UnorderedMultimap (\<lambda>k v m. (k, v) # m)) IntHandler), []) =
         Some (True, t', [(''a'', 2), (''a'', 1)]) \<and>
        parsed t' \<and>
        mset [(''a'', 2 :: 32 word), (''a'', 1)] = {#(''a'', 1), (''a'', 2)#} \<and>
        write_to (MapHandler (UnorderedMultimap (\<lambda>k v m. (k, v) # m)) IntHandler) t'
           [(''a'', 2), (''a'', 1)] \<lparr>accepts = (\<lambda>evs ev. True), accepted = []\<rparr> =
         (True, t',
          \<lparr>accepts = (\<lambda>evs ev. True),
           accepted = [EvStartObject, EvKey ''a'' True, EvInt 2, EvKey ''a'' True, EvInt 1,
                       EvEndObject 2]\<rparr>))"
proof -
  let ?out = "\<lparr>accepts = (\<lambda>evs ev. True), accepted = []\<rparr>"
  let ?U = "UnorderedMultimap (\<lambda>k v m. (k, v) # m) :: 32 word MapType"
  have dec: "decodes_to IntHandler [EvInt i] i" for i
    by (auto simp: decodes_to_def fresh_states_def run_IntHandler)
  have wr: "writes_as IntHandler v [EvInt v]" for v
    by (auto simp: writes_as_def IntHandler_def emit_accepting)
  have acc: "accepting ?out"
    by (simp add: accepting_def)
  have ku: "keeps_entries ?U"
    by (simp add: arranges_def)
  have array: "\<exists>s'. decode (ArrayHandler Vector IntHandler)
           [EvStartArray, EvInt 1, EvInt 2, EvEndArray 2]
           (construct (ArrayHandler Vector IntHandler), []) =
         Some (True, s', [1, 2]) \<and>
        parsed s' \<and>
        write_to (ArrayHandler Vector IntHandler) s' [1, 2] ?out =
         (True, s',
          \<lparr>accepts = (\<lambda>evs ev. True),
           accepted = [EvStartArray, EvInt 1, EvInt 2, EvEndArray 2]\<rparr>)"
    using
      C4_round_trip
        [where docs = "[([EvInt 1], 1), ([EvInt 2], 2)]" and H = IntHandler
           and enc = "\<lambda>v. [EvInt v]" and out = ?out and k = Vector and n = 2,
           THEN conjunct1]
      dec wr acc
    by simp
  have map: "\<exists>t'. decode (MapHandler Map IntHandler)
           [EvStartObject, EvKey ''a'' False, EvInt 1, EvKey ''b'' False, EvInt 2, EvEndObject 2]
           (construct (MapHandler Map IntHandler), []) =
         Some (True, t', [(''a'', 1), (''b'', 2)]) \<and>
        parsed t' \<and>
        mset [(''a'', 1 :: 32 word), (''b'', 2)] = {#(''a'', 1), (''b'', 2)#} \<and>
        write_to (MapHandler Map IntHandler) t' [(''a'', 1), (''b'', 2)] ?out =
         (True, t',
          \<lparr>accepts = (\<lambda>evs ev. True),
           accepted = [EvStartObject, EvKey ''a'' True, EvInt 1, EvKey ''b'' True, EvInt 2,
                       EvEndObject 2]\<rparr>)"
    using
      C4_round_trip
        [where G = IntHandler and X = "[EvInt 1]" and x = 1 and Y = "[EvInt 2]" and y = 2
           and enc' = "\<lambda>v. [EvInt v]" and out = ?out and j = Map
           and a = "''a''" and b = "''b''" and copy = False and n' = 2,
           THEN conjunct2]
      dec wr acc
    by simp
  have multimap: "\<exists>t'. decode (MapHandler Multimap IntHandler)
           [EvStartObject, EvKey ''a'' False, EvInt 1, EvKey ''a'' False, EvInt 2, EvEndObject 2]
           (construct (MapHandler Multimap IntHandler), []) =
         Some (True, t', [(''a'', 1), (''a'', 2)]) \<and>
        parsed t' \<and>
        write_to (MapHandler Multimap IntHandler) t' [(''a'', 1), (''a'', 2)] ?out =
         (True, t',
          \<lparr>accepts = (\<lambda>evs ev. True),
           accepted = [EvStartObject, EvKey ''a'' True, EvInt 1, EvKey ''a'' True, EvInt 2,
                       EvEndObject 2]\<rparr>)"
    using
      C4_round_trip
        [where G = IntHandler and X = "[EvInt 1]" and x = 1 and Y = "[EvInt 2]" and y = 2
           and enc' = "\<lambda>v. [EvInt v]" and out = ?out and j = Multimap
           and a = "''a''" and b = "''a''" and copy = False and n' = 2,
           THEN conjunct2]
      dec wr acc
    by simp
  have plain: "\<exists>t'. decode (MapHandler Map IntHandler)
           [EvStartObject, EvKey ''a'' False, EvInt 1, EvKey ''a'' False, EvInt 2, EvEndObject 2]
           (construct (MapHandler Map IntHandler), []) =
         Some (True, t', [(''a'', 1)]) \<and>
        parsed t'"
    using
      C4_round_trip
        [where G = IntHandler and X = "[EvInt 1]" and x = 1 and Y = "[EvInt 2]" and y = 2
           and enc' = "\<lambda>v. [EvInt v]" and out = ?out and j = Map
           and a = "''a''" and b = "''a''" and copy = False and n' = 2,
           THEN conjunct2]
      dec wr acc
    by auto
  have unordered: "\<exists>t'. decode (MapHandler ?U IntHandler)
           [EvStartObject, EvKey ''a'' False, EvInt 1, EvKey ''a'' False, EvInt 2, EvEndObject 2]
           (construct (MapHandler ?U IntHandler), []) =
         Some (True, t', [(''a'', 2), (''a'', 1)]) \<and>
        parsed t' \<and>
        mset [(''a'', 2 :: 32 word), (''a'', 1)] = {#(''a'', 1), (''a'', 2)#} \<and>
        write_to (MapHandler ?U IntHandler) t' [(''a'', 2), (''a'', 1)] ?out =
         (True, t',
          \<lparr>accepts = (\<lambda>evs ev. True),
           accepted = [EvStartObject, EvKey ''a'' True, EvInt 2, EvKey ''a'' True, EvInt 1,
                       EvEndObject 2]\<rparr>)"
    using
      C4_round_trip
        [where G = IntHandler and X = "[EvInt 1]" and x = 1 and Y = "[EvInt 2]" and y = 2
           and enc' = "\<lambda>v. [EvInt v]" and out = ?out and j = ?U
           and a = "''a''" and b = "''a''" and copy = False and n' = 2,
           THEN conjunct2]
      dec wr acc ku
    by simp
  show ?thesis
    using array map multimap plain unordered by blast
qed

end
